theory Spec2Isabelle
  imports Complex_Main "HOL-Library.AList" "HOL-Library.Sublist"
begin

section \<open>Data model\<close>

text \<open>
  A JavaScript string is a sequence of UTF-16 code units; it is modelled as the list of
  its code units. \<open>js\<close> turns an ASCII literal into that list.
\<close>

type_synonym jsstring = "nat list"

definition js :: "string \<Rightarrow> jsstring" where
  "js s = map of_char s"

text \<open>
  A JavaScript number is a finite value, given by the rational it denotes, one of the two
  infinities, or NaN.
\<close>

datatype number = Num rat | PosInfinity | NegInfinity | NaN

text \<open>A raw cell value of a sheet (the type \<open>any\<close> of the coercion functions).\<close>

datatype cell = CNull | CUndefined | CBool bool | CNum number | CStr jsstring

text \<open>\<open>interface WorkCode\<close>; the optional \<open>note\<close> is the option \<open>note'\<close>.\<close>

record WorkCode =
  subworkCode :: jsstring
  subworkName :: jsstring
  majorCode :: jsstring
  majorName :: jsstring
  note' :: "jsstring option"
  version :: jsstring
  updatedAt :: jsstring

text \<open>The result of \<open>calculateTotals\<close>.\<close>

record Totals =
  totalInHours :: number
  totalOutHours :: number
  totalHours :: number
  overtimeRatio :: number

text \<open>
  The entries of \<open>grouped\<close> in \<open>aggregateByWorkType\<close>, and \<open>interface WorkTypeData\<close>. The
  fields \<open>kinai\<close>, \<open>kigai\<close> and \<open>kei\<close> are the regular hours, the overtime hours and the
  total, whose names in the source are the Japanese words for them.
\<close>

record WorkTypeGroup =
  projectCode :: jsstring
  subworkCode :: jsstring
  kinai :: number
  kigai :: number
  kei :: number

record WorkTypeData =
  name :: jsstring
  kinai :: number
  kigai :: number
  kei :: number

text \<open>\<open>interface WorkItem\<close>.\<close>

record WorkItem =
  id' :: jsstring
  workDate :: jsstring
  contractorId :: jsstring
  contractorName :: jsstring
  reporter :: jsstring
  headcount :: number
  employmentCode :: jsstring
  projectId :: jsstring
  projectCode :: jsstring
  subareaCode :: jsstring
  subworkCode :: jsstring
  inHours :: number
  outHours :: number
  totalHours :: number
  srcHash :: jsstring
  createdAt :: jsstring

section \<open>Import: deduplication of a batch\<close>

text \<open>
  The loop of \<open>handleFileUpload\<close> over \<open>itemsWithHash\<close>: the state is the set of
  hashes seen, the \<open>duplicates\<close> array and the \<open>uniqueItems\<close> array; \<open>push\<close> appends.
\<close>

type_synonym dedupState = "jsstring set \<times> WorkItem list \<times> WorkItem list"

fun dedupStep :: "WorkItem \<Rightarrow> dedupState \<Rightarrow> dedupState" where
  "dedupStep item (hashSet, duplicates, uniqueItems) =
     (if srcHash item \<in> hashSet
      then (hashSet, duplicates @ [item], uniqueItems)
      else (insert (srcHash item) hashSet, duplicates, uniqueItems @ [item]))"

definition dedupItems :: "WorkItem list \<Rightarrow> dedupState" where
  "dedupItems itemsWithHash = fold dedupStep itemsWithHash ({}, [], [])"

definition duplicatesOf :: "WorkItem list \<Rightarrow> WorkItem list" where
  "duplicatesOf itemsWithHash = fst (snd (dedupItems itemsWithHash))"

definition uniqueItemsOf :: "WorkItem list \<Rightarrow> WorkItem list" where
  "uniqueItemsOf itemsWithHash = snd (snd (dedupItems itemsWithHash))"

text \<open>
  The record at position \<open>i\<close> is the first of the batch bearing its hash: no earlier
  position holds a record with the same \<open>srcHash\<close>.
\<close>

definition firstWithHash :: "WorkItem list \<Rightarrow> nat \<Rightarrow> bool" where
  "firstWithHash xs i = (srcHash (xs ! i) \<notin> srcHash ` set (take i xs))"

section \<open>The store: addWorkItems\<close>

text \<open>
  \<open>addWorkItems\<close> of the data context, as the function of the previous state that
  \<open>setWorkItems\<close> applies.
\<close>

definition addWorkItems :: "WorkItem list \<Rightarrow> WorkItem list \<Rightarrow> WorkItem list" where
  "addWorkItems prev items =
     (let existingHashes = set (map srcHash prev);
          uniqueNewItems = filter (\<lambda>item. srcHash item \<notin> existingHashes) items
      in prev @ uniqueNewItems)"

text \<open>The store after a sequence of calls, starting from the empty store.\<close>

definition storeAfter :: "WorkItem list list \<Rightarrow> WorkItem list" where
  "storeAfter batches = foldl addWorkItems [] batches"

text \<open>A record with the given hours and hash, every other field empty.\<close>

definition mkItem :: "jsstring \<Rightarrow> rat \<Rightarrow> rat \<Rightarrow> WorkItem" where
  "mkItem h i out =
     \<lparr> id' = [], workDate = [], contractorId = [], contractorName = [], reporter = [],
       headcount = Num 0, employmentCode = [], projectId = [], projectCode = [],
       subareaCode = [], subworkCode = [], inHours = Num i, outHours = Num out,
       totalHours = Num (i + out), srcHash = h, createdAt = [] \<rparr>"

section \<open>Strings and numbers of the coercion functions\<close>

text \<open>
  \<open>String.prototype.trim\<close> removes white space and line terminators from both ends;
  \<open>isWhiteSpace\<close> lists the code units ECMAScript counts as such.
\<close>

definition isWhiteSpace :: "nat \<Rightarrow> bool" where
  "isWhiteSpace c =
     (c \<in> {9, 10, 11, 12, 13, 32, 160, 5760, 8232, 8233, 8239, 8287, 12288, 65279}
      \<or> (8192 \<le> c \<and> c \<le> 8202))"

definition trim :: "jsstring \<Rightarrow> jsstring" where
  "trim s = rev (dropWhile isWhiteSpace (rev (dropWhile isWhiteSpace s)))"

text \<open>The class \<open>\d\<close> of a regular expression: the ASCII digits.\<close>

definition isDigit :: "nat \<Rightarrow> bool" where
  "isDigit c = (48 \<le> c \<and> c \<le> 57)"

definition digitsToNat :: "jsstring \<Rightarrow> nat" where
  "digitsToNat ds = foldl (\<lambda>a c. 10 * a + (c - 48)) 0 ds"

text \<open>
  The string of a number (\<open>String(x)\<close>, a template literal): decimal notation of the
  exact value, the fraction cut after 20 digits. It is JavaScript's output for the finite
  decimals below \<open>10^21\<close> that a sheet of hours holds; the exponent notation of very large
  and very small doubles is outside the model.
\<close>

fun natToString :: "nat \<Rightarrow> jsstring" where
  "natToString n = (if n < 10 then [48 + n] else natToString (n div 10) @ [48 + n mod 10])"

declare natToString.simps [simp del]

fun fracDigits :: "nat \<Rightarrow> rat \<Rightarrow> jsstring" where
  "fracDigits 0 f = []"
| "fracDigits (Suc k) f =
     (if f = 0 then []
      else (48 + nat \<lfloor>f * 10\<rfloor>) # fracDigits k (f * 10 - of_int \<lfloor>f * 10\<rfloor>))"

definition unsignedToString :: "rat \<Rightarrow> jsstring" where
  "unsignedToString r =
     natToString (nat \<lfloor>r\<rfloor>)
       @ (if r = of_int \<lfloor>r\<rfloor> then [] else 46 # fracDigits 20 (r - of_int \<lfloor>r\<rfloor>))"

definition ratToString :: "rat \<Rightarrow> jsstring" where
  "ratToString r = (if r < 0 then 45 # unsignedToString (- r) else unsignedToString r)"

fun numberToString :: "number \<Rightarrow> jsstring" where
  "numberToString (Num r) = ratToString r"
| "numberToString PosInfinity = js ''Infinity''"
| "numberToString NegInfinity = js ''-Infinity''"
| "numberToString NaN = js ''NaN''"

text \<open>Truthiness of a cell, as \<open>!value\<close> and \<open>value ? a : b\<close> read it.\<close>

fun truthy :: "cell \<Rightarrow> bool" where
  "truthy CNull = False"
| "truthy CUndefined = False"
| "truthy (CBool b) = b"
| "truthy (CNum n) = (n \<noteq> Num 0 \<and> n \<noteq> NaN)"
| "truthy (CStr s) = (s \<noteq> [])"

text \<open>\<open>String(value)\<close>.\<close>

fun jsString :: "cell \<Rightarrow> jsstring" where
  "jsString CNull = js ''null''"
| "jsString CUndefined = js ''undefined''"
| "jsString (CBool b) = (if b then js ''true'' else js ''false'')"
| "jsString (CNum n) = numberToString n"
| "jsString (CStr s) = s"

text \<open>
  \<open>parseFloat\<close>: leading white space is skipped, then the longest prefix that is a
  decimal literal is read (sign, \<open>Infinity\<close> or digits with an optional fraction and an
  optional exponent); no such prefix gives NaN. The value is exact.
\<close>

definition splitSign :: "jsstring \<Rightarrow> bool \<times> jsstring" where
  "splitSign s =
     (case s of [] \<Rightarrow> (False, [])
      | c # r \<Rightarrow> if c = 45 then (True, r) else if c = 43 then (False, r) else (False, s))"

definition pow10 :: "int \<Rightarrow> rat" where
  "pow10 e = (if e \<ge> 0 then 10 ^ nat e else 1 / 10 ^ nat (- e))"

definition exponentPart :: "jsstring \<Rightarrow> int" where
  "exponentPart s =
     (case s of [] \<Rightarrow> 0
      | c # r \<Rightarrow>
          if c = 101 \<or> c = 69
          then (let (eneg, r') = splitSign r; ed = takeWhile isDigit r'
                in if ed = [] then 0
                   else if eneg then - int (digitsToNat ed) else int (digitsToNat ed))
          else 0)"

definition parseFloat :: "jsstring \<Rightarrow> number" where
  "parseFloat s =
     (let (neg, s1) = splitSign (dropWhile isWhiteSpace s)
      in if prefix (js ''Infinity'') s1 then (if neg then NegInfinity else PosInfinity)
         else
           let ip = takeWhile isDigit s1;
               r1 = dropWhile isDigit s1;
               fp = (case r1 of [] \<Rightarrow> [] | c # r \<Rightarrow> if c = 46 then takeWhile isDigit r else []);
               r2 = (case r1 of [] \<Rightarrow> [] | c # r \<Rightarrow> if c = 46 then dropWhile isDigit r else r1)
           in if ip = [] \<and> fp = [] then NaN
              else
                let m = of_int (int (digitsToNat (ip @ fp))) / 10 ^ length fp * pow10 (exponentPart r2)
                in Num (if neg then - m else m))"

section \<open>The coercion functions\<close>

definition parseNumber :: "cell \<Rightarrow> number" where
  "parseNumber value =
     (if value = CNull \<or> value = CUndefined \<or> value = CStr [] then Num 0
      else
        let str = trim (jsString value);
            num = parseFloat str
        in if num = NaN then Num 0 else num)"

definition parseString :: "cell \<Rightarrow> jsstring" where
  "parseString value = (if truthy value then trim (jsString value) else [])"

section \<open>Dates\<close>

text \<open>
  The time value of a \<open>Date\<close> is a whole number of milliseconds since the epoch, at most
  \<open>8.64 * 10^15\<close> in magnitude; \<open>timeClip\<close> gives \<open>None\<close> (an invalid date) beyond
  that and truncates towards zero within. The calendar functions follow ECMAScript's
  \<open>DayFromYear\<close>, \<open>YearFromTime\<close>, \<open>MonthFromTime\<close>, \<open>DateFromTime\<close> and \<open>MakeDay\<close>,
  on day numbers.
\<close>

definition msPerDay :: int where
  "msPerDay = 86400000"

definition timeClip :: "rat \<Rightarrow> int option" where
  "timeClip t =
     (if \<bar>t\<bar> > 8640000000000000 then None
      else Some (if t < 0 then - \<lfloor>- t\<rfloor> else \<lfloor>t\<rfloor>))"

definition dayFromYear :: "int \<Rightarrow> int" where
  "dayFromYear y =
     365 * (y - 1970) + (y - 1969) div 4 - (y - 1901) div 100 + (y - 1601) div 400"

definition inLeapYear :: "int \<Rightarrow> bool" where
  "inLeapYear y = (y mod 4 = 0 \<and> (y mod 100 \<noteq> 0 \<or> y mod 400 = 0))"

text \<open>
  \<open>YearFromTime\<close> is the largest year that starts on or before the day; it is within one
  of the estimate by the mean length of a year.
\<close>

definition yearFromDay :: "int \<Rightarrow> int" where
  "yearFromDay d =
     (let y = 1970 + (d * 400) div 146097
      in if dayFromYear (y + 1) \<le> d then y + 1
         else if dayFromYear y \<le> d then y
         else y - 1)"

text \<open>The day within the year on which month \<open>m\<close> (from 0) starts.\<close>

definition monthStart :: "bool \<Rightarrow> int \<Rightarrow> int" where
  "monthStart leap m =
     (let l = (if leap then 1 else 0)
      in if m = 0 then 0 else if m = 1 then 31 else if m = 2 then 59 + l
         else if m = 3 then 90 + l else if m = 4 then 120 + l else if m = 5 then 151 + l
         else if m = 6 then 181 + l else if m = 7 then 212 + l else if m = 8 then 243 + l
         else if m = 9 then 273 + l else if m = 10 then 304 + l else 334 + l)"

definition monthFromDay :: "bool \<Rightarrow> int \<Rightarrow> int" where
  "monthFromDay leap dwy =
     (let l = (if leap then 1 else 0)
      in if dwy < 31 then 0 else if dwy < 59 + l then 1 else if dwy < 90 + l then 2
         else if dwy < 120 + l then 3 else if dwy < 151 + l then 4 else if dwy < 181 + l then 5
         else if dwy < 212 + l then 6 else if dwy < 243 + l then 7 else if dwy < 273 + l then 8
         else if dwy < 304 + l then 9 else if dwy < 334 + l then 10 else 11)"

definition daysInMonth :: "bool \<Rightarrow> int \<Rightarrow> int" where
  "daysInMonth leap m =
     (if m = 1 then (if leap then 29 else 28)
      else if m = 3 \<or> m = 5 \<or> m = 8 \<or> m = 10 then 30 else 31)"

definition makeDay :: "int \<Rightarrow> int \<Rightarrow> int \<Rightarrow> int" where
  "makeDay y m dt = dayFromYear y + monthStart (inLeapYear y) m + dt - 1"

text \<open>Zero-padded decimal of \<open>k\<close> digits (\<open>padStart(k, "0")\<close> of a number below \<open>10^k\<close>).\<close>

fun padZero :: "nat \<Rightarrow> nat \<Rightarrow> jsstring" where
  "padZero 0 n = []"
| "padZero (Suc k) n = padZero k (n div 10) @ [48 + n mod 10]"

text \<open>
  \<open>date.toISOString().split('T')[0]\<close> of a valid date: the year with four digits, or
  with a sign and six digits outside 0 to 9999, then month and day. \<open>isoOfYearDay\<close>
  takes the year and the day within the year, \<open>isoOfDay\<close> the day number.
\<close>

definition isoYear :: "int \<Rightarrow> jsstring" where
  "isoYear y =
     (if 0 \<le> y \<and> y \<le> 9999 then padZero 4 (nat y)
      else (if y < 0 then 45 else 43) # padZero 6 (nat \<bar>y\<bar>))"

definition isoOfYearDay :: "int \<Rightarrow> int \<Rightarrow> jsstring" where
  "isoOfYearDay y dwy =
     isoYear y @ [45]
       @ padZero 2 (nat (monthFromDay (inLeapYear y) dwy + 1)) @ [45]
       @ padZero 2 (nat (dwy - monthStart (inLeapYear y) (monthFromDay (inLeapYear y) dwy) + 1))"

definition isoOfDay :: "int \<Rightarrow> jsstring" where
  "isoOfDay day = isoOfYearDay (yearFromDay day) (day - dayFromYear (yearFromDay day))"

definition isoDatePart :: "int \<Rightarrow> jsstring" where
  "isoDatePart t = isoOfDay (t div msPerDay)"

text \<open>
  \<open>Date.parse\<close>, as \<open>new Date(str)\<close> calls it. A string of the shape \<open>dddd-dd-dd\<close> is the
  date-only form of the Date Time String Format: a valid calendar date is UTC midnight of
  that day, a month outside 01 to 12 or a day outside 01 to 31 is NaN (\<open>None\<close>). Every other
  string, and a day beyond the length of its month (where engines differ), is left to
  \<open>impl\<close>, the parser of the engine.
\<close>

definition isoDateShape :: "jsstring \<Rightarrow> bool" where
  "isoDateShape s =
     (length s = 10 \<and> list_all isDigit (take 4 s) \<and> s ! 4 = 45
      \<and> list_all isDigit (take 2 (drop 5 s)) \<and> s ! 7 = 45 \<and> list_all isDigit (drop 8 s))"

definition dateParse :: "(jsstring \<Rightarrow> int option) \<Rightarrow> jsstring \<Rightarrow> int option" where
  "dateParse impl s =
     (if isoDateShape s
      then
        (let y = int (digitsToNat (take 4 s));
             m = int (digitsToNat (take 2 (drop 5 s)));
             dt = int (digitsToNat (drop 8 s))
         in if m < 1 \<or> 12 < m \<or> dt < 1 \<or> 31 < dt then None
            else if dt \<le> daysInMonth (inLeapYear y) (m - 1)
            then Some (msPerDay * makeDay y (m - 1) dt)
            else impl s)
      else impl s)"

datatype jserror = RangeError

text \<open>The two regular expressions of \<open>parseDate\<close>: \<open>^\d{8}$\<close> and \<open>^\d+\.?\d*$\<close>.\<close>

definition isEightDigits :: "jsstring \<Rightarrow> bool" where
  "isEightDigits str = (length str = 8 \<and> list_all isDigit str)"

definition isSerialNumber :: "jsstring \<Rightarrow> bool" where
  "isSerialNumber str =
     (takeWhile isDigit str \<noteq> []
      \<and> (case dropWhile isDigit str of [] \<Rightarrow> True
         | c # r \<Rightarrow> c = 46 \<and> list_all isDigit r))"

text \<open>
  \<open>parseDate\<close>: \<open>Inr None\<close> is the result \<open>null\<close>, \<open>Inl RangeError\<close> the exception that
  \<open>toISOString\<close> throws on an invalid date.
\<close>

definition parseDate :: "(jsstring \<Rightarrow> int option) \<Rightarrow> cell \<Rightarrow> jserror + jsstring option" where
  "parseDate impl value =
     (if \<not> truthy value then Inr None
      else
        let str = trim (jsString value)
        in if isEightDigits str
           then Inr (Some (take 4 str @ [45] @ take 2 (drop 4 str) @ [45] @ take 2 (drop 6 str)))
           else if isSerialNumber str
           then (case parseFloat str of
                   Num serial \<Rightarrow>
                     (case timeClip ((serial - 25569) * 86400 * 1000) of
                        None \<Rightarrow> Inl RangeError
                      | Some t \<Rightarrow> Inr (Some (isoDatePart t)))
                 | _ \<Rightarrow> Inl RangeError)
           else (case dateParse impl str of
                   Some t \<Rightarrow> Inr (Some (isoDatePart t))
                 | None \<Rightarrow> Inr None))"

text \<open>An engine parser that recognises nothing beyond the date-only form.\<close>

definition noOtherFormat :: "jsstring \<Rightarrow> int option" where
  "noOtherFormat s = None"

text \<open>
  A string \<open>YYYY-MM-DD\<close> that names a day of the calendar: the month is 01 to 12 and the
  day is 01 to the length of that month in that year.
\<close>

definition validIsoDate :: "jsstring \<Rightarrow> bool" where
  "validIsoDate s =
     (isoDateShape s
      \<and> 1 \<le> digitsToNat (take 2 (drop 5 s)) \<and> digitsToNat (take 2 (drop 5 s)) \<le> 12
      \<and> 1 \<le> digitsToNat (drop 8 s)
      \<and> int (digitsToNat (drop 8 s))
           \<le> daysInMonth (inLeapYear (int (digitsToNat (take 4 s))))
                (int (digitsToNat (take 2 (drop 5 s))) - 1))"

section \<open>Binary64 arithmetic\<close>

text \<open>
  The arithmetic of JavaScript numbers. A finite double is the rational it denotes
  (\<open>Num\<close>); the sign of zero is not modelled. \<open>roundToDouble\<close> rounds an exact result to
  the nearest double, ties to the even significand: the quantum is \<open>2^(e - 52)\<close> for the
  binary exponent \<open>e\<close> of the magnitude, not below \<open>-1022\<close> (subnormal numbers), and a
  result of \<open>2^1024\<close> or more is an infinity.
\<close>

definition roundHalfEven :: "rat \<Rightarrow> int" where
  "roundHalfEven x =
     (if x - of_int \<lfloor>x\<rfloor> < 1 / 2 then \<lfloor>x\<rfloor>
      else if 1 / 2 < x - of_int \<lfloor>x\<rfloor> then \<lfloor>x\<rfloor> + 1
      else if even \<lfloor>x\<rfloor> then \<lfloor>x\<rfloor> else \<lfloor>x\<rfloor> + 1)"

fun halvings :: "nat \<Rightarrow> rat \<Rightarrow> nat" where
  "halvings 0 a = 0"
| "halvings (Suc k) a = (if a < 2 then 0 else Suc (halvings k (a / 2)))"

fun doublings :: "nat \<Rightarrow> rat \<Rightarrow> nat" where
  "doublings 0 a = 0"
| "doublings (Suc k) a = (if 1 \<le> a then 0 else Suc (doublings k (a * 2)))"

definition binaryExponent :: "rat \<Rightarrow> int" where
  "binaryExponent a = (if 1 \<le> a then int (halvings 1024 a) else - int (doublings 1022 a))"

definition pow2 :: "int \<Rightarrow> rat" where
  "pow2 e = (if 0 \<le> e then 2 ^ nat e else 1 / 2 ^ nat (- e))"

definition roundMagnitude :: "rat \<Rightarrow> rat" where
  "roundMagnitude a =
     of_int (roundHalfEven (a / pow2 (binaryExponent a - 52))) * pow2 (binaryExponent a - 52)"

definition roundToDouble :: "rat \<Rightarrow> number" where
  "roundToDouble x =
     (if x = 0 then Num 0
      else if pow2 1024 \<le> roundMagnitude \<bar>x\<bar>
      then (if 0 < x then PosInfinity else NegInfinity)
      else Num (if 0 < x then roundMagnitude \<bar>x\<bar> else - roundMagnitude \<bar>x\<bar>))"

text \<open>The operators \<open>+\<close>, \<open>*\<close>, \<open>/\<close> and the test \<open>x > 0\<close> on numbers.\<close>

fun numAdd :: "number \<Rightarrow> number \<Rightarrow> number" where
  "numAdd (Num a) (Num b) = roundToDouble (a + b)"
| "numAdd NaN y = NaN"
| "numAdd x NaN = NaN"
| "numAdd PosInfinity NegInfinity = NaN"
| "numAdd NegInfinity PosInfinity = NaN"
| "numAdd PosInfinity y = PosInfinity"
| "numAdd x PosInfinity = PosInfinity"
| "numAdd NegInfinity y = NegInfinity"
| "numAdd x NegInfinity = NegInfinity"

fun numMul :: "number \<Rightarrow> number \<Rightarrow> number" where
  "numMul (Num a) (Num b) = roundToDouble (a * b)"
| "numMul NaN y = NaN"
| "numMul x NaN = NaN"
| "numMul (Num a) PosInfinity = (if a = 0 then NaN else if 0 < a then PosInfinity else NegInfinity)"
| "numMul (Num a) NegInfinity = (if a = 0 then NaN else if 0 < a then NegInfinity else PosInfinity)"
| "numMul PosInfinity (Num b) = (if b = 0 then NaN else if 0 < b then PosInfinity else NegInfinity)"
| "numMul NegInfinity (Num b) = (if b = 0 then NaN else if 0 < b then NegInfinity else PosInfinity)"
| "numMul PosInfinity PosInfinity = PosInfinity"
| "numMul PosInfinity NegInfinity = NegInfinity"
| "numMul NegInfinity PosInfinity = NegInfinity"
| "numMul NegInfinity NegInfinity = PosInfinity"

fun numDiv :: "number \<Rightarrow> number \<Rightarrow> number" where
  "numDiv (Num a) (Num b) =
     (if b = 0 then (if a = 0 then NaN else if 0 < a then PosInfinity else NegInfinity)
      else roundToDouble (a / b))"
| "numDiv NaN y = NaN"
| "numDiv x NaN = NaN"
| "numDiv (Num a) PosInfinity = Num 0"
| "numDiv (Num a) NegInfinity = Num 0"
| "numDiv PosInfinity (Num b) = (if 0 \<le> b then PosInfinity else NegInfinity)"
| "numDiv NegInfinity (Num b) = (if 0 \<le> b then NegInfinity else PosInfinity)"
| "numDiv PosInfinity PosInfinity = NaN"
| "numDiv PosInfinity NegInfinity = NaN"
| "numDiv NegInfinity PosInfinity = NaN"
| "numDiv NegInfinity NegInfinity = NaN"

fun numPositive :: "number \<Rightarrow> bool" where
  "numPositive (Num a) = (0 < a)"
| "numPositive PosInfinity = True"
| "numPositive NegInfinity = False"
| "numPositive NaN = False"

text \<open>
  \<open>Number(x.toFixed(1))\<close>. \<open>toFixed\<close> works on the exact value of the double: it takes
  the integer \<open>n\<close> for which \<open>n / 10\<close> is closest to the magnitude, the larger one on a
  tie, and writes it with one decimal and the sign; from \<open>10^21\<close> on, and for NaN and the
  infinities, it writes the number itself. \<open>Number\<close> reads the decimal back as the
  nearest double.
\<close>

fun numToFixed1 :: "number \<Rightarrow> number" where
  "numToFixed1 (Num r) =
     (if 10 ^ 21 \<le> \<bar>r\<bar> then Num r
      else if r < 0 then roundToDouble (- (of_int \<lfloor>(- r) * 10 + 1 / 2\<rfloor> / 10))
      else roundToDouble (of_int \<lfloor>r * 10 + 1 / 2\<rfloor> / 10))"
| "numToFixed1 PosInfinity = PosInfinity"
| "numToFixed1 NegInfinity = NegInfinity"
| "numToFixed1 NaN = NaN"

section \<open>Aggregation: totals\<close>

definition calculateTotals :: "WorkItem list \<Rightarrow> Totals" where
  "calculateTotals workItems =
     (let tin = foldl (\<lambda>sum item. numAdd sum (inHours item)) (Num 0) workItems;
          tout = foldl (\<lambda>sum item. numAdd sum (outHours item)) (Num 0) workItems;
          total = numAdd tin tout;
          ratio = (if numPositive total then numMul (numDiv tout total) (Num 100) else Num 0)
      in \<lparr> totalInHours = tin, totalOutHours = tout, totalHours = total,
           overtimeRatio = numToFixed1 ratio \<rparr>)"

section \<open>The content hash of a row\<close>

text \<open>The template literal of \<open>generateRowHash\<close>: the eight fields joined by \<open>_\<close>.\<close>

definition rowKey :: "WorkItem \<Rightarrow> jsstring" where
  "rowKey item =
     workDate item @ [95] @ contractorName item @ [95] @ projectCode item @ [95]
       @ WorkItem.subworkCode item @ [95] @ subareaCode item @ [95] @ reporter item @ [95]
       @ numberToString (inHours item) @ [95] @ numberToString (outHours item)"

text \<open>
  \<open>TextEncoder.encode\<close>: the UTF-8 bytes of a string. A surrogate pair is one scalar
  value of four bytes, a lone surrogate is replaced by U+FFFD; code units are below 65536.
\<close>

definition utf8Bytes3 :: "nat \<Rightarrow> nat list" where
  "utf8Bytes3 c = [224 + c div 4096, 128 + c div 64 mod 64, 128 + c mod 64]"

definition utf8Bytes4 :: "nat \<Rightarrow> nat list" where
  "utf8Bytes4 c =
     [240 + c div 262144, 128 + c div 4096 mod 64, 128 + c div 64 mod 64, 128 + c mod 64]"

fun utf8Encode :: "jsstring \<Rightarrow> nat list" where
  "utf8Encode [] = []"
| "utf8Encode (c # cs) =
     (if c < 128 then c # utf8Encode cs
      else if c < 2048 then (192 + c div 64) # (128 + c mod 64) # utf8Encode cs
      else if 55296 \<le> c \<and> c < 56320
      then (case cs of
              [] \<Rightarrow> utf8Bytes3 65533
            | d # ds \<Rightarrow>
                if 56320 \<le> d \<and> d < 57344
                then utf8Bytes4 (65536 + (c - 55296) * 1024 + (d - 56320)) @ utf8Encode ds
                else utf8Bytes3 65533 @ utf8Encode cs)
      else if 56320 \<le> c \<and> c < 57344 then utf8Bytes3 65533 @ utf8Encode cs
      else utf8Bytes3 c @ utf8Encode cs)"

text \<open>\<open>btoa\<close> on a string of bytes: base64 with \<open>=\<close> padding.\<close>

definition base64Char :: "nat \<Rightarrow> nat" where
  "base64Char i =
     (if i < 26 then 65 + i else if i < 52 then 97 + (i - 26)
      else if i < 62 then 48 + (i - 52) else if i = 62 then 43 else 47)"

fun btoa :: "nat list \<Rightarrow> jsstring" where
  "btoa [] = []"
| "btoa [a] = [base64Char (a div 4), base64Char (a mod 4 * 16), 61, 61]"
| "btoa [a, b] =
     [base64Char (a div 4), base64Char (a mod 4 * 16 + b div 16), base64Char (b mod 16 * 4), 61]"
| "btoa (a # b # c # rest) =
     [base64Char (a div 4), base64Char (a mod 4 * 16 + b div 16),
      base64Char (b mod 16 * 4 + c div 64), base64Char (c mod 64)] @ btoa rest"

text \<open>The characters \<open>.replace(/[^a-zA-Z0-9]/g, '')\<close> keeps.\<close>

definition isAlphaNum :: "nat \<Rightarrow> bool" where
  "isAlphaNum c = ((97 \<le> c \<and> c \<le> 122) \<or> (65 \<le> c \<and> c \<le> 90) \<or> (48 \<le> c \<and> c \<le> 57))"

text \<open>
  The fallback of the \<open>catch\<close> block: \<open>hash << 5\<close> and \<open>hash & hash\<close> are 32-bit signed
  operations (\<open>toInt32\<close> wraps), \<open>Math.abs(hash).toString(36)\<close> writes the magnitude in
  base 36.
\<close>

definition toInt32 :: "int \<Rightarrow> int" where
  "toInt32 x = (x + 2147483648) mod 4294967296 - 2147483648"

definition hashStep :: "int \<Rightarrow> nat \<Rightarrow> int" where
  "hashStep hash char = toInt32 (toInt32 (hash * 32) - hash + int char)"

definition base36Char :: "nat \<Rightarrow> nat" where
  "base36Char d = (if d < 10 then 48 + d else 97 + (d - 10))"

fun toString36 :: "nat \<Rightarrow> jsstring" where
  "toString36 n =
     (if n < 36 then [base36Char n] else toString36 (n div 36) @ [base36Char (n mod 36)])"

declare toString36.simps [simp del]

text \<open>
  \<open>generateRowHash\<close>. The \<open>try\<close> block throws only where \<open>TextEncoder\<close> or \<open>btoa\<close> does
  not exist (every character given to \<open>btoa\<close> is a byte); \<open>encoderAvailable\<close> says whether
  the environment has them.
\<close>

definition generateRowHash :: "bool \<Rightarrow> WorkItem \<Rightarrow> jsstring" where
  "generateRowHash encoderAvailable item =
     (let key = rowKey item
      in if encoderAvailable
         then filter isAlphaNum (btoa (utf8Encode key))
         else toString36 (nat \<bar>foldl hashStep 0 key\<bar>))"

section \<open>Import: undefined sub-work codes\<close>

text \<open>
  The check of \<open>handleFileUpload\<close> for codes absent from the taxonomy of the same file:
  \<open>undefinedCodes\<close> is a filter of the unique items, and only its length is reported.
\<close>

definition undefinedCodesOf :: "WorkCode list \<Rightarrow> WorkItem list \<Rightarrow> WorkItem list" where
  "undefinedCodesOf parsedWorkCodes uniqueItems =
     (let definedCodes = set (map WorkCode.subworkCode parsedWorkCodes)
      in filter (\<lambda>item. subworkCode item \<noteq> [] \<and> subworkCode item \<notin> definedCodes) uniqueItems)"

text \<open>\<open>interface ImportResult\<close>, without the \<open>jobId\<close> made from the clock.\<close>

record ImportResult =
  inserted :: nat
  updated :: nat
  duplicates :: nat
  errors :: nat
  undefinedCodes :: nat

definition importResult :: "WorkCode list \<Rightarrow> WorkItem list \<Rightarrow> ImportResult" where
  "importResult parsedWorkCodes itemsWithHash =
     \<lparr> inserted = length (uniqueItemsOf itemsWithHash), updated = 0,
       duplicates = length (duplicatesOf itemsWithHash), errors = 0,
       undefinedCodes = length (undefinedCodesOf parsedWorkCodes (uniqueItemsOf itemsWithHash)) \<rparr>"

section \<open>Aggregation by work type\<close>

text \<open>
  \<open>grouped\<close> is a plain object used as a dictionary: an association list in the order of
  insertion, which is the order of \<open>Object.values\<close> since no key is an array index (every
  key has an underscore). A key that names a property inherited from \<open>Object.prototype\<close>
  is never added: \<open>acc[key]\<close> is then an object or a function, which is truthy, and the three
  sums are written to that inherited value. These are the inherited names with an
  underscore.
\<close>

definition inheritedKeys :: "jsstring list" where
  "inheritedKeys = [js ''__proto__'', js ''__defineGetter__'', js ''__defineSetter__'',
     js ''__lookupGetter__'', js ''__lookupSetter__'']"

definition groupKey :: "WorkItem \<Rightarrow> jsstring" where
  "groupKey item = WorkItem.projectCode item @ [95] @ WorkItem.subworkCode item"

definition addHours :: "WorkItem \<Rightarrow> WorkTypeGroup \<Rightarrow> WorkTypeGroup" where
  "addHours item g =
     g\<lparr> WorkTypeGroup.kinai := numAdd (WorkTypeGroup.kinai g) (inHours item),
        WorkTypeGroup.kigai := numAdd (WorkTypeGroup.kigai g) (outHours item),
        WorkTypeGroup.kei := numAdd (WorkTypeGroup.kei g) (WorkItem.totalHours item) \<rparr>"

definition groupStep ::
  "(jsstring \<times> WorkTypeGroup) list \<Rightarrow> WorkItem \<Rightarrow> (jsstring \<times> WorkTypeGroup) list" where
  "groupStep acc item =
     (let key = groupKey item
      in if key \<in> set inheritedKeys then acc
         else AList.map_entry key (addHours item)
                (if map_of acc key = None
                 then acc @ [(key, \<lparr> WorkTypeGroup.projectCode = WorkItem.projectCode item,
                                      WorkTypeGroup.subworkCode = WorkItem.subworkCode item,
                                      WorkTypeGroup.kinai = Num 0, WorkTypeGroup.kigai = Num 0,
                                      WorkTypeGroup.kei = Num 0 \<rparr>)]
                 else acc))"

text \<open>The template literal with the two characters of the Japanese word for a work.\<close>

definition fallbackName :: "jsstring \<Rightarrow> jsstring \<Rightarrow> jsstring" where
  "fallbackName p s = [24037, 20107] @ p @ [95] @ s"

definition workTypeNameOf :: "WorkCode list \<Rightarrow> WorkTypeGroup \<Rightarrow> jsstring" where
  "workTypeNameOf workCodes g =
     (case find (\<lambda>code. WorkCode.subworkCode code = WorkTypeGroup.subworkCode g) workCodes of
        None \<Rightarrow> fallbackName (WorkTypeGroup.projectCode g) (WorkTypeGroup.subworkCode g)
      | Some workCode \<Rightarrow>
          if majorName workCode \<noteq> [] then majorName workCode
          else if subworkName workCode \<noteq> [] then subworkName workCode
          else fallbackName (WorkTypeGroup.projectCode g) (WorkTypeGroup.subworkCode g))"

definition addGroup :: "WorkTypeGroup \<Rightarrow> WorkTypeData \<Rightarrow> WorkTypeData" where
  "addGroup g existing =
     existing\<lparr> kinai := numAdd (kinai existing) (WorkTypeGroup.kinai g),
               kigai := numAdd (kigai existing) (WorkTypeGroup.kigai g),
               kei := numAdd (kei existing) (WorkTypeGroup.kei g) \<rparr>"

text \<open>\<open>workTypeMap\<close> is a \<open>Map\<close>: an association list in the order of insertion.\<close>

definition mergeStep ::
  "WorkCode list \<Rightarrow> (jsstring \<times> WorkTypeData) list \<Rightarrow> WorkTypeGroup
     \<Rightarrow> (jsstring \<times> WorkTypeData) list" where
  "mergeStep workCodes workTypeMap g =
     (let workTypeName = workTypeNameOf workCodes g
      in AList.map_entry workTypeName (addGroup g)
           (if map_of workTypeMap workTypeName = None
            then workTypeMap @ [(workTypeName, \<lparr> name = workTypeName, kinai = Num 0,
                                                 kigai = Num 0, kei = Num 0 \<rparr>)]
            else workTypeMap))"

definition aggregateByWorkType :: "WorkItem list \<Rightarrow> WorkCode list \<Rightarrow> WorkTypeData list" where
  "aggregateByWorkType workItems workCodes =
     (if workItems = [] then []
      else let grouped = foldl groupStep [] workItems
           in map snd (foldl (mergeStep workCodes) [] (map snd grouped)))"

text \<open>
  The grouping as the specification words it, by the pair of the project code and the
  sub-work code; the rest is as above.
\<close>

definition groupStep_spec ::
  "((jsstring \<times> jsstring) \<times> WorkTypeGroup) list \<Rightarrow> WorkItem
     \<Rightarrow> ((jsstring \<times> jsstring) \<times> WorkTypeGroup) list" where
  "groupStep_spec acc item =
     (let key = (WorkItem.projectCode item, WorkItem.subworkCode item)
      in AList.map_entry key (addHours item)
           (if map_of acc key = None
            then acc @ [(key, \<lparr> WorkTypeGroup.projectCode = WorkItem.projectCode item,
                                 WorkTypeGroup.subworkCode = WorkItem.subworkCode item,
                                 WorkTypeGroup.kinai = Num 0, WorkTypeGroup.kigai = Num 0,
                                 WorkTypeGroup.kei = Num 0 \<rparr>)]
            else acc))"

definition aggregateByWorkType_spec :: "WorkItem list \<Rightarrow> WorkCode list \<Rightarrow> WorkTypeData list" where
  "aggregateByWorkType_spec workItems workCodes =
     (let grouped = foldl groupStep_spec [] workItems
      in map snd (foldl (mergeStep workCodes) [] (map snd grouped)))"

text \<open>
  The relation used to compare the two groupings: the two dictionaries hold the same groups
  in the same order, and the two keys of each pair of entries are the string key and the
  pair key of one record of \<open>S\<close>.
\<close>

definition sameGroups ::
  "WorkItem set \<Rightarrow> (jsstring \<times> WorkTypeGroup) list
     \<Rightarrow> ((jsstring \<times> jsstring) \<times> WorkTypeGroup) list \<Rightarrow> bool" where
  "sameGroups S acc acc' =
     list_all2 (\<lambda>e e'. snd e = snd e'
        \<and> (\<exists>r \<in> S. fst e = groupKey r
              \<and> fst e' = (WorkItem.projectCode r, WorkItem.subworkCode r))) acc acc'"

section \<open>Header matching: detectColumns\<close>

text \<open>
  The table \<open>COLUMN_CANDIDATES\<close>, in the order of its keys; the Japanese candidates are
  given by their code units.
\<close>

definition COLUMN_CANDIDATES :: "(jsstring \<times> jsstring list) list" where
  "COLUMN_CANDIDATES =
     [
      (js ''workDate'',
       [[26085, 20184],
        [26085, 20184] @ js ''(YYYYMMDD|ExcelSerial|string)'',
        js ''work_date'',
        js ''date'',
        [24180, 26376, 26085],
        [20316, 26989, 26085]]),
      (js ''contractorName'',
       [[26989, 32773, 21517],
        [26989, 32773],
        js ''contractor'',
        js ''company'',
        [20250, 31038],
        [20225, 26989]]),
      (js ''reporter'',
       [[22577, 21578, 32773, 21517],
        [22577, 21578, 32773],
        js ''reporter'',
        js ''name'',
        [27663, 21517],
        [25285, 24403, 32773]]),
      (js ''headcount'',
       [[22312, 31821],
        [20154, 25968],
        js ''headcount'',
        js ''count'',
        [20154, 21729]]),
      (js ''employmentCode'',
       [[38599],
        [38599, 29992, 21306, 20998],
        js ''employment'',
        js ''emp_code'',
        [38599, 29992]]),
      (js ''projectCode'',
       [[24037, 20107, 30058, 21495],
        [24037, 20107, 30058, 21495] @ js ''(Sxxxx)'',
        js ''project'',
        js ''project_code'',
        [24037, 20107],
        [12503, 12525, 12472, 12455, 12463, 12488]]),
      (js ''subareaCode'',
       [[23567, 21306, 30011],
        [23567, 21306, 30011] @ js ''(code'' @ [20363] @ js '': B12P/H5P/...)'',
        js ''subarea'',
        js ''area'',
        [21306, 30011]]),
      (js ''subworkCode'',
       [[23567, 21306, 20998],
        [23567, 21306, 20998] @ js ''(code'' @ [20363] @ js '': 25K/211/...)'',
        js ''subwork'',
        js ''work_code'',
        [20316, 26989],
        [24037, 31278]]),
      (js ''inHours'',
       [[35215, 20869],
        [35215, 20869] @ js ''(numeric)'',
        js ''in_hours'',
        js ''regular'',
        [36890, 24120],
        [23450, 26178]]),
      (js ''outHours'',
       [[35215, 22806],
        [35215, 22806] @ js ''(numeric)'',
        js ''out_hours'',
        js ''overtime'',
        [27531, 26989],
        [36229, 36942]]),
      (js ''totalHours'',
       [[35336],
        [35336] @ js ''(numeric)'',
        js ''total_hours'',
        js ''total'',
        [21512, 35336],
        [32207, 35336]])
     ]"

text \<open>
  \<open>asciiLower\<close> maps the letters A to Z to lower case and nothing else. It is
  \<open>String.prototype.toLowerCase\<close> on every string without other cased letters, as are
  all the candidates; \<open>detectColumns\<close> takes the lower-casing function as its first
  argument, so that its properties hold for the full function of the engine.
\<close>

definition asciiLower :: "jsstring \<Rightarrow> jsstring" where
  "asciiLower s = map (\<lambda>c. if 65 \<le> c \<and> c \<le> 90 then c + 32 else c) s"

text \<open>\<open>s.includes(t)\<close>: \<open>t\<close> occurs in \<open>s\<close> as a contiguous substring.\<close>

fun includes' :: "jsstring \<Rightarrow> jsstring \<Rightarrow> bool" where
  "includes' [] t = (t = [])"
| "includes' (c # s) t = (prefix t (c # s) \<or> includes' s t)"

text \<open>The predicate given to \<open>validHeaders.find\<close> for one candidate.\<close>

definition matchesHeader :: "(jsstring \<Rightarrow> jsstring) \<Rightarrow> jsstring \<Rightarrow> jsstring \<Rightarrow> bool" where
  "matchesHeader lower candidate header =
     (let headerLower = trim (lower header);
          candidateLower = trim (lower candidate);
          exactMatch = (headerLower = candidateLower);
          containsMatch = (includes' headerLower candidateLower \<or> includes' candidateLower headerLower);
          partialMatch = list_all (\<lambda>char. includes' headerLower [char]) candidateLower
      in exactMatch \<or> containsMatch \<or> partialMatch)"

text \<open>\<open>headers.filter(header => header && typeof header === 'string')\<close>.\<close>

fun validHeaders :: "cell list \<Rightarrow> jsstring list" where
  "validHeaders [] = []"
| "validHeaders (CStr s # hs) = (if s \<noteq> [] then s # validHeaders hs else validHeaders hs)"
| "validHeaders (h # hs) = validHeaders hs"

text \<open>
  The loop over the candidates of one field: the first candidate for which \<open>find\<close> gives a
  header ends the loop (\<open>break\<close>).
\<close>

fun findCandidate ::
  "(jsstring \<Rightarrow> jsstring) \<Rightarrow> jsstring list \<Rightarrow> jsstring list \<Rightarrow> jsstring option" where
  "findCandidate lower hs [] = None"
| "findCandidate lower hs (candidate # rest) =
     (case find (matchesHeader lower candidate) hs of
        None \<Rightarrow> findCandidate lower hs rest
      | Some found \<Rightarrow> if found \<noteq> [] then Some found else findCandidate lower hs rest)"

text \<open>\<open>detectColumns\<close>: the mapping object is a map from keys to headers.\<close>

definition detectStep ::
  "(jsstring \<Rightarrow> jsstring) \<Rightarrow> jsstring list \<Rightarrow> (jsstring \<rightharpoonup> jsstring)
     \<Rightarrow> jsstring \<times> jsstring list \<Rightarrow> (jsstring \<rightharpoonup> jsstring)" where
  "detectStep lower hs mapping entry =
     (case findCandidate lower hs (snd entry) of
        None \<Rightarrow> mapping
      | Some found \<Rightarrow> mapping(fst entry \<mapsto> found))"

definition detectColumns :: "(jsstring \<Rightarrow> jsstring) \<Rightarrow> cell list \<Rightarrow> (jsstring \<rightharpoonup> jsstring)" where
  "detectColumns lower headers =
     foldl (detectStep lower (validHeaders headers)) Map.empty COLUMN_CANDIDATES"

section \<open>Properties of the deduplication\<close>

lemma dedupItems_snoc:
  "dedupItems (xs @ [x]) = dedupStep x (dedupItems xs)"
  by (simp add: dedupItems_def)

lemma firstWithHash_append:
  "i < length xs \<Longrightarrow> firstWithHash (xs @ ys) i = firstWithHash xs i"
  by (simp add: firstWithHash_def nth_append)

lemma filter_firstWithHash_append:
  "filter (firstWithHash (xs @ ys)) [0..<length xs] = filter (firstWithHash xs) [0..<length xs]"
  by (rule filter_cong) (simp_all add: firstWithHash_append)

lemma filter_not_firstWithHash_append:
  "filter (\<lambda>i. \<not> firstWithHash (xs @ ys) i) [0..<length xs]
     = filter (\<lambda>i. \<not> firstWithHash xs i) [0..<length xs]"
  by (rule filter_cong) (simp_all add: firstWithHash_append)

lemma map_nth_append_filter:
  "map ((!) (xs @ ys)) (filter P [0..<length xs]) = map ((!) xs) (filter P [0..<length xs])"
  by (rule map_cong) (auto simp: nth_append)

lemma dedupItems_char:
  "dedupItems xs =
     (srcHash ` set xs,
      map ((!) xs) (filter (\<lambda>i. \<not> firstWithHash xs i) [0..<length xs]),
      map ((!) xs) (filter (firstWithHash xs) [0..<length xs]))"
proof (induction xs rule: rev_induct)
  case Nil
  show ?case by (simp add: dedupItems_def)
next
  case (snoc x xs)
  have last: "firstWithHash (xs @ [x]) (length xs) = (srcHash x \<notin> srcHash ` set xs)"
    by (simp add: firstWithHash_def)
  show ?case
    by (auto simp: dedupItems_snoc snoc.IH last filter_firstWithHash_append
        filter_not_firstWithHash_append map_nth_append_filter)
qed

lemma uniqueItemsOf_char:
  "uniqueItemsOf xs = map ((!) xs) (filter (firstWithHash xs) [0..<length xs])"
  by (simp add: uniqueItemsOf_def dedupItems_char)

lemma duplicatesOf_char:
  "duplicatesOf xs = map ((!) xs) (filter (\<lambda>i. \<not> firstWithHash xs i) [0..<length xs])"
  by (simp add: duplicatesOf_def dedupItems_char)

lemma uniqueItemsOf_Nil: "uniqueItemsOf [] = []"
  by (simp add: uniqueItemsOf_def dedupItems_def)

lemma uniqueItemsOf_snoc:
  "uniqueItemsOf (xs @ [x]) =
     (if srcHash x \<in> srcHash ` set xs then uniqueItemsOf xs else uniqueItemsOf xs @ [x])"
  by (simp add: uniqueItemsOf_def dedupItems_snoc dedupItems_char [of xs])

lemma uniqueItemsOf_subset: "set (uniqueItemsOf xs) \<subseteq> set xs"
  by (induction xs rule: rev_induct) (auto simp: uniqueItemsOf_snoc uniqueItemsOf_Nil)

lemma distinct_uniqueItemsOf: "distinct (map srcHash (uniqueItemsOf xs))"
proof (induction xs rule: rev_induct)
  case Nil
  show ?case by (simp add: uniqueItemsOf_Nil)
next
  case (snoc x xs)
  show ?case
    using snoc.IH uniqueItemsOf_subset [of xs] by (auto simp: uniqueItemsOf_snoc)
qed

lemma length_dedupItems:
  "length (uniqueItemsOf xs) + length (duplicatesOf xs) = length xs"
  using sum_length_filter_compl [of "firstWithHash xs" "[0..<length xs]"]
  by (simp add: uniqueItemsOf_char duplicatesOf_char)

text \<open>
  C2. For every ordered batch of hashed records the deduplication step puts into the
  unique list exactly the records that are the first of the batch with their \<open>srcHash\<close>,
  and into the duplicates list exactly the later records with an already seen hash, both
  in input order; the two lengths add up to the length of the batch and the hashes of
  the unique list are pairwise distinct.
\<close>

theorem dedup_partition:
  "uniqueItemsOf xs = map ((!) xs) (filter (firstWithHash xs) [0..<length xs])
   \<and> duplicatesOf xs = map ((!) xs) (filter (\<lambda>i. \<not> firstWithHash xs i) [0..<length xs])
   \<and> length (uniqueItemsOf xs) + length (duplicatesOf xs) = length xs
   \<and> distinct (map srcHash (uniqueItemsOf xs))"
  using uniqueItemsOf_char [of xs] duplicatesOf_char [of xs] length_dedupItems [of xs]
    distinct_uniqueItemsOf [of xs]
  by blast

section \<open>Evaluation of the coercion functions\<close>

lemma padZero_numeral:
  "padZero (numeral k) n = padZero (pred_numeral k) (n div 10) @ [48 + n mod 10]"
  by (metis numeral_eq_Suc padZero.simps(2))

lemma fracDigits_numeral:
  "fracDigits (numeral k) f =
     (if f = 0 then []
      else (48 + nat \<lfloor>f * 10\<rfloor>) # fracDigits (pred_numeral k) (f * 10 - of_int \<lfloor>f * 10\<rfloor>))"
  by (metis numeral_eq_Suc fracDigits.simps(2))

lemma floor_rat_numeral:
  "\<lfloor>(numeral a / numeral b :: rat)\<rfloor> = numeral a div numeral b"
  using floor_divide_of_int_eq [of "numeral a" "numeral b", where ?'a = rat] by simp

lemma floor_rat_one_numeral:
  "\<lfloor>(1 / numeral b :: rat)\<rfloor> = 1 div numeral b"
  using floor_divide_of_int_eq [of 1 "numeral b", where ?'a = rat] by simp

lemmas ev = js_def trim_def isWhiteSpace_def isDigit_def digitsToNat_def natToString.simps
  padZero_numeral fracDigits_numeral floor_rat_numeral floor_rat_one_numeral
  unsignedToString_def ratToString_def splitSign_def pow10_def exponentPart_def parseFloat_def
  parseNumber_def parseString_def msPerDay_def timeClip_def dayFromYear_def inLeapYear_def
  yearFromDay_def monthStart_def monthFromDay_def daysInMonth_def makeDay_def isoDatePart_def
  isoYear_def isoOfYearDay_def isoOfDay_def
  isoDateShape_def dateParse_def isEightDigits_def isSerialNumber_def parseDate_def noOtherFormat_def
  Let_def

section \<open>Evaluation of binary64 arithmetic\<close>

lemma halvings_numeral:
  "halvings (numeral k) a = (if a < 2 then 0 else Suc (halvings (pred_numeral k) (a / 2)))"
  by (metis numeral_eq_Suc halvings.simps(2))

lemma doublings_numeral:
  "doublings (numeral k) a = (if 1 \<le> a then 0 else Suc (doublings (pred_numeral k) (a * 2)))"
  by (metis numeral_eq_Suc doublings.simps(2))

lemmas nv = halvings_numeral doublings_numeral floor_rat_numeral floor_rat_one_numeral
  roundHalfEven_def binaryExponent_def pow2_def roundMagnitude_def roundToDouble_def Let_def

section \<open>Properties of the coercion functions\<close>

text \<open>
  C10. \<open>parseString\<close> returns the empty string for every falsy input, not only for
  \<open>null\<close> and the empty string: the number 0 and the boolean \<open>false\<close> coerce to the empty
  string, not to their string representations \<open>"0"\<close> and \<open>"false"\<close>, so a numeric 0 in a
  string-typed column gives the same result as a missing value.
\<close>

theorem parseString_falsy:
  "(\<not> truthy v \<longrightarrow> parseString v = [])
   \<and> parseString (CNum (Num 0)) = [] \<and> parseString (CBool False) = []
   \<and> jsString (CNum (Num 0)) = js ''0'' \<and> jsString (CBool False) = js ''false''
   \<and> parseString (CNum (Num 0)) = parseString CNull
   \<and> parseString (CNum (Num 0)) = parseString CUndefined
   \<and> parseString (CNum (Num 0)) = parseString (CStr [])"
  by (simp add: parseString_def ratToString_def unsignedToString_def natToString.simps js_def)

theorem parseString_falsy_witness:
  "\<not> truthy (CNum NaN) \<and> parseString (CNum NaN) = []"
  using parseString_falsy [of "CNum NaN"] by simp

text \<open>
  C7. The fallbacks of the coercion functions hold: \<open>parseNumber\<close> gives 0 on the empty
  string, \<open>null\<close>, \<open>undefined\<close> and \<open>"abc"\<close>, \<open>parseString\<close> gives the empty string on
  \<open>null\<close> and the empty string, \<open>parseDate\<close> gives \<open>null\<close> on the empty string, \<open>null\<close>
  and an unparseable string. But \<open>parseDate\<close> is not free of exceptions: on the digit
  string \<open>"999999999"\<close> (and on the number 999999999) the serial-number branch builds an
  invalid date and \<open>toISOString\<close> throws a RangeError, whatever the parser of the engine.
\<close>

theorem parseDate_serial_throws:
  "parseNumber (CStr []) = Num 0 \<and> parseNumber CNull = Num 0 \<and> parseNumber CUndefined = Num 0
   \<and> parseNumber (CStr (js ''abc'')) = Num 0
   \<and> parseString CNull = [] \<and> parseString (CStr []) = []
   \<and> parseDate impl (CStr []) = Inr None \<and> parseDate impl CNull = Inr None
   \<and> parseDate noOtherFormat (CStr (js ''abc'')) = Inr None
   \<and> parseDate impl (CStr (js ''999999999'')) = Inl RangeError
   \<and> parseDate impl (CNum (Num 999999999)) = Inl RangeError"
  by (simp add: ev)

section \<open>The calendar and the idempotence of parseDate\<close>

lemma int_div_bounds:
  fixes n x :: int
  assumes "0 < n"
  shows "n * (x div n) \<le> x" and "x < n * (x div n) + n"
  using mult_div_mod_eq [of n x] pos_mod_sign [OF assms, of x] pos_mod_bound [OF assms, of x]
  by linarith+

lemma int_div_succ:
  fixes n x :: int
  assumes n: "0 < n"
  shows "(x + 1) div n = x div n + (if (x + 1) mod n = 0 then 1 else 0)"
proof (cases "x mod n = n - 1")
  case True
  have eq: "x + 1 = n * (x div n + 1) + 0"
    using mult_div_mod_eq [of n x] True by (simp add: algebra_simps)
  have "(x + 1) div n = x div n + 1"
    by (rule int_div_pos_eq [OF eq]) (use n in simp_all)
  moreover have "(x + 1) mod n = 0"
    by (rule int_mod_pos_eq [OF eq]) (use n in simp_all)
  ultimately show ?thesis by simp
next
  case False
  have r: "0 \<le> x mod n + 1" "x mod n + 1 < n"
    using pos_mod_sign [OF n, of x] pos_mod_bound [OF n, of x] False by linarith+
  have eq: "x + 1 = n * (x div n) + (x mod n + 1)"
    using mult_div_mod_eq [of n x] by simp
  have "(x + 1) div n = x div n"
    by (rule int_div_pos_eq [OF eq r])
  moreover have "(x + 1) mod n = x mod n + 1"
    by (rule int_mod_pos_eq [OF eq r])
  ultimately show ?thesis using pos_mod_sign [OF n, of x] by simp
qed

text \<open>Four hundred years hold 146097 days: the start of a year is close to its mean.\<close>

lemma dayFromYear_estimate:
  "146097 * (y - 1970) - 607 < 400 * dayFromYear y"
  "400 * dayFromYear y < 146097 * (y - 1970) + 593"
proof -
  define a where "a = (y - 1969) div 4"
  define b where "b = (y - 1901) div 100"
  define c where "c = (y - 1601) div 400"
  have a: "y - 1969 < 4 * a + 4" "4 * a \<le> y - 1969"
    unfolding a_def using int_div_bounds [of 4 "y - 1969"] by simp_all
  have b: "y - 1901 < 100 * b + 100" "100 * b \<le> y - 1901"
    unfolding b_def using int_div_bounds [of 100 "y - 1901"] by simp_all
  have c: "y - 1601 < 400 * c + 400" "400 * c \<le> y - 1601"
    unfolding c_def using int_div_bounds [of 400 "y - 1601"] by simp_all
  have d: "dayFromYear y = 365 * (y - 1970) + a - b + c"
    by (simp add: dayFromYear_def a_def b_def c_def)
  show "146097 * (y - 1970) - 607 < 400 * dayFromYear y"
    unfolding d using a b c by (simp add: algebra_simps)
  show "400 * dayFromYear y < 146097 * (y - 1970) + 593"
    unfolding d using a b c by (simp add: algebra_simps)
qed

text \<open>A year has 365 days, a leap year 366.\<close>

lemma dayFromYear_Suc:
  "dayFromYear (y + 1) = dayFromYear y + (if inLeapYear y then 366 else 365)"
proof -
  define A where "A = (y - 1969) div 4"
  define B where "B = (y - 1901) div 100"
  define C where "C = (y - 1601) div 400"
  define p where "p = (y mod 4 = 0)"
  define q where "q = (y mod 100 = 0)"
  define r where "r = (y mod 400 = 0)"
  have a: "(y - 1968) div 4 = A + (if p then 1 else 0)"
    unfolding A_def p_def
    using int_div_succ [of 4 "y - 1969"] mod_mult_self2 [of y 4 "- 492"] by simp
  have b: "(y - 1900) div 100 = B + (if q then 1 else 0)"
    unfolding B_def q_def
    using int_div_succ [of 100 "y - 1901"] mod_mult_self2 [of y 100 "- 19"] by simp
  have c: "(y - 1600) div 400 = C + (if r then 1 else 0)"
    unfolding C_def r_def
    using int_div_succ [of 400 "y - 1601"] mod_mult_self2 [of y 400 "- 4"] by simp
  have d: "r \<Longrightarrow> q"
    unfolding r_def q_def using mod_mod_cancel [of 100 400 y] by simp
  have e: "q \<Longrightarrow> p"
    unfolding p_def q_def using mod_mod_cancel [of 4 100 y] by simp
  have s: "dayFromYear (y + 1) =
      365 * (y - 1969) + (y - 1968) div 4 - (y - 1900) div 100 + (y - 1600) div 400"
    by (simp add: dayFromYear_def)
  have t: "dayFromYear y = 365 * (y - 1970) + A - B + C"
    by (simp add: dayFromYear_def A_def B_def C_def)
  have l: "inLeapYear y = (p \<and> (\<not> q \<or> r))"
    by (simp add: inLeapYear_def p_def q_def r_def)
  show ?thesis
    unfolding s t l a b c using d e by (cases p; cases q; cases r) simp_all
qed

text \<open>\<open>yearFromDay\<close> is ECMAScript's \<open>YearFromTime\<close>: the year whose days hold the day.\<close>

lemma yearFromDay_unique:
  assumes lo: "dayFromYear y \<le> d" and hi: "d < dayFromYear (y + 1)"
    and mono: "dayFromYear (y + 1) < dayFromYear (y + 2)"
  shows "yearFromDay d = y"
proof -
  define q where "q = (d * 400) div 146097"
  define Y where "Y = 1970 + q"
  have q1: "146097 * q \<le> d * 400" and q2: "d * 400 < 146097 * q + 146097"
    unfolding q_def using int_div_bounds [of 146097 "d * 400"] by simp_all
  have lb: "y - 1 \<le> Y"
    unfolding Y_def using dayFromYear_estimate(1) [of y] lo q2 by (simp add: algebra_simps)
  have ub: "Y \<le> y + 1"
    unfolding Y_def using dayFromYear_estimate(2) [of "y + 1"] hi q1 by (simp add: algebra_simps)
  have yfd: "yearFromDay d =
      (if dayFromYear (Y + 1) \<le> d then Y + 1 else if dayFromYear Y \<le> d then Y else Y - 1)"
    by (simp add: yearFromDay_def Y_def q_def Let_def)
  consider "y = Y + 1" | "y = Y" | "y = Y - 1"
    using lb ub by linarith
  then show ?thesis
  proof cases
    case 1
    with lo show ?thesis unfolding yfd by simp
  next
    case 2
    with lo hi show ?thesis unfolding yfd by simp
  next
    case 3
    then have e1: "Y = y + 1" and e2: "Y + 1 = y + 2" by simp_all
    have n1: "\<not> dayFromYear (Y + 1) \<le> d" unfolding e2 using hi mono by linarith
    have n2: "\<not> dayFromYear Y \<le> d" unfolding e1 using hi by linarith
    show ?thesis unfolding yfd using n1 n2 3 by simp
  qed
qed

lemma month_roundtrip:
  assumes "0 \<le> m" "m \<le> 11" "1 \<le> dt" "dt \<le> daysInMonth leap m"
  shows "monthFromDay leap (monthStart leap m + dt - 1) = m
    \<and> 0 \<le> monthStart leap m + dt - 1
    \<and> monthStart leap m + dt - 1 < (if leap then 366 else 365)"
proof -
  have "m = 0 \<or> m = 1 \<or> m = 2 \<or> m = 3 \<or> m = 4 \<or> m = 5
    \<or> m = 6 \<or> m = 7 \<or> m = 8 \<or> m = 9 \<or> m = 10 \<or> m = 11"
    using assms(1,2) by presburger
  then show ?thesis
    using assms(3,4)
    by (elim disjE; cases leap)
       (simp_all add: monthFromDay_def monthStart_def daysInMonth_def Let_def)
qed

lemma padZero_Suc_snoc:
  "w < 10 \<Longrightarrow> padZero (Suc k) (10 * n + w) = padZero k n @ [48 + w]"
  by simp

lemma padZero_one: "x < 10 \<Longrightarrow> padZero (Suc 0) x = [48 + x]"
  by simp

lemma digits2:
  assumes "isDigit a" "isDigit b"
  shows "padZero 2 (digitsToNat [a, b]) = [a, b]"
proof -
  define x where "x = a - 48"
  define y where "y = b - 48"
  have x: "a = 48 + x" "x < 10" and y: "b = 48 + y" "y < 10"
    using assms unfolding isDigit_def x_def y_def by auto
  have n: "digitsToNat [a, b] = 10 * x + y"
    by (simp add: digitsToNat_def x_def y_def)
  have two: "(2::nat) = Suc (Suc 0)" by simp
  have "padZero (Suc (Suc 0)) (10 * x + y) = [48 + x, 48 + y]"
    using x(2) y(2) by (simp only: padZero_Suc_snoc padZero_one append.simps)
  then have r: "padZero 2 (digitsToNat [a, b]) = [48 + x, 48 + y]"
    unfolding n two .
  show ?thesis
    by (simp only: r x(1) [symmetric] y(1) [symmetric])
qed

lemma digits4:
  assumes "isDigit a" "isDigit b" "isDigit c" "isDigit d"
  shows "padZero 4 (digitsToNat [a, b, c, d]) = [a, b, c, d]"
proof -
  define x where "x = a - 48"
  define y where "y = b - 48"
  define z where "z = c - 48"
  define w where "w = d - 48"
  have x: "a = 48 + x" "x < 10" and y: "b = 48 + y" "y < 10"
    and z: "c = 48 + z" "z < 10" and w: "d = 48 + w" "w < 10"
    using assms unfolding isDigit_def x_def y_def z_def w_def by auto
  have n: "digitsToNat [a, b, c, d] = 10 * (10 * (10 * x + y) + z) + w"
    by (simp add: digitsToNat_def x_def y_def z_def w_def)
  have four: "(4::nat) = Suc (Suc (Suc (Suc 0)))" by simp
  have "padZero (Suc (Suc (Suc (Suc 0)))) (10 * (10 * (10 * x + y) + z) + w)
      = [48 + x, 48 + y, 48 + z, 48 + w]"
    using x(2) y(2) z(2) w(2) by (simp only: padZero_Suc_snoc padZero_one append.simps)
  then have r: "padZero 4 (digitsToNat [a, b, c, d]) = [48 + x, 48 + y, 48 + z, 48 + w]"
    unfolding n four .
  show ?thesis
    by (simp only: r x(1) [symmetric] y(1) [symmetric] z(1) [symmetric] w(1) [symmetric])
qed

lemma trim_id:
  assumes "s \<noteq> []" "\<not> isWhiteSpace (hd s)" "\<not> isWhiteSpace (last s)"
  shows "trim s = s"
proof -
  have 1: "dropWhile isWhiteSpace s = s"
    using assms(1,2) by (cases s) simp_all
  have 2: "dropWhile isWhiteSpace (rev s) = rev s"
    using assms(1,3) by (cases "rev s") (simp_all add: last_rev [symmetric] hd_rev)
  show ?thesis by (simp add: trim_def 1 2)
qed

lemma digit_not_space: "isDigit c \<Longrightarrow> \<not> isWhiteSpace c"
  by (auto simp: isDigit_def isWhiteSpace_def)

lemma isoDateShape_explode:
  assumes "isoDateShape s"
  obtains a b c d e f g h where "s = [a, b, c, d, 45, e, f, 45, g, h]"
    "isDigit a" "isDigit b" "isDigit c" "isDigit d" "isDigit e" "isDigit f" "isDigit g" "isDigit h"
proof -
  from assms have len: "length s = 10" by (simp add: isoDateShape_def)
  then obtain a b c d x e f y g h where s: "s = [a, b, c, d, x, e, f, y, g, h]"
    by (auto simp: length_Suc_conv eval_nat_numeral)
  with assms show thesis
    by (intro that [of a b c d e f g h]) (simp_all add: isoDateShape_def)
qed
lemma digits4_bound:
  assumes "isDigit a" "isDigit b" "isDigit c" "isDigit d"
  shows "digitsToNat [a, b, c, d] \<le> 9999"
  using assms by (auto simp: digitsToNat_def isDigit_def)

lemma dayFromYear_less: "dayFromYear y < dayFromYear (y + 1)"
  by (simp add: dayFromYear_Suc)

lemma isoOfDay_makeDay:
  assumes m: "0 \<le> m" "m \<le> 11" and dt: "1 \<le> dt" "dt \<le> daysInMonth (inLeapYear y) m"
  shows "isoOfDay (makeDay y m dt) = isoOfYearDay y (monthStart (inLeapYear y) m + dt - 1)"
proof -
  note r = month_roundtrip [OF m dt]
  have lo: "dayFromYear y \<le> makeDay y m dt"
    using r by (simp add: makeDay_def)
  have hi: "makeDay y m dt < dayFromYear (y + 1)"
    using r unfolding dayFromYear_Suc [of y] makeDay_def by (simp split: if_splits)
  have mono: "dayFromYear (y + 1) < dayFromYear (y + 2)"
  proof -
    have e: "y + 2 = (y + 1) + 1" by simp
    show ?thesis unfolding e by (rule dayFromYear_less)
  qed
  have yr: "yearFromDay (makeDay y m dt) = y"
    by (rule yearFromDay_unique [OF lo hi mono])
  have dwy: "makeDay y m dt - dayFromYear y = monthStart (inLeapYear y) m + dt - 1"
    by (simp add: makeDay_def)
  show ?thesis
    unfolding isoOfDay_def yr dwy ..
qed

lemma isoOfYearDay_roundtrip:
  assumes m: "0 \<le> m" "m \<le> 11" and dt: "1 \<le> dt" "dt \<le> daysInMonth (inLeapYear y) m"
    and y: "0 \<le> y" "y \<le> 9999"
  shows "isoOfYearDay y (monthStart (inLeapYear y) m + dt - 1)
    = padZero 4 (nat y) @ [45] @ padZero 2 (nat (m + 1)) @ [45] @ padZero 2 (nat dt)"
  using month_roundtrip [OF m dt] y by (simp add: isoOfYearDay_def isoYear_def)

lemma isoDatePart_msPerDay: "isoDatePart (msPerDay * k) = isoOfDay k"
  by (simp add: isoDatePart_def msPerDay_def)

text \<open>
  C8 as the claim states it fails: \<open>parseDate\<close> turns the eight digits \<open>20251301\<close> into
  \<open>2025-13-01\<close>, a string of the form \<open>YYYY-MM-DD\<close>, and applied to that output it
  returns \<open>null\<close>, since month 13 is no date.
\<close>

theorem parseDate_not_idempotent_counterexample:
  "parseDate noOtherFormat (CStr (js ''20251301'')) = Inr (Some (js ''2025-13-01''))
   \<and> isoDateShape (js ''2025-13-01'')
   \<and> parseDate noOtherFormat (CStr (js ''2025-13-01'')) = Inr None"
  by (simp add: ev)

text \<open>
  C8, amended. For every string of the form \<open>YYYY-MM-DD\<close> that names a day of the
  calendar (month 01 to 12, day 01 to the length of the month), \<open>parseDate\<close> returns the
  same string unchanged, whatever the engine's parser does on other formats.
\<close>

theorem parseDate_idempotent_valid:
  assumes "validIsoDate s"
  shows "parseDate impl (CStr s) = Inr (Some s)"
proof -
  from assms have shape: "isoDateShape s" by (simp add: validIsoDate_def)
  then obtain a b c d e f g h where s: "s = [a, b, c, d, 45, e, f, 45, g, h]"
    and dg: "isDigit a" "isDigit b" "isDigit c" "isDigit d"
      "isDigit e" "isDigit f" "isDigit g" "isDigit h"
    by (rule isoDateShape_explode)
  define y where "y = int (digitsToNat [a, b, c, d])"
  define m where "m = int (digitsToNat [e, f])"
  define dt where "dt = int (digitsToNat [g, h])"
  have parts: "take 4 s = [a, b, c, d]" "take 2 (drop 5 s) = [e, f]" "drop 8 s = [g, h]"
    by (simp_all add: s)
  from assms have m: "1 \<le> m" "m \<le> 12" and dt: "1 \<le> dt" "dt \<le> daysInMonth (inLeapYear y) (m - 1)"
    unfolding validIsoDate_def parts y_def m_def dt_def by simp_all
  have dt31: "dt \<le> 31"
    using dt(2) by (simp add: daysInMonth_def split: if_splits)
  have yb: "0 \<le> y" "y \<le> 9999"
    using digits4_bound [OF dg(1-4)] by (simp_all add: y_def)
  have tr: "trim s = s"
    by (rule trim_id) (simp_all add: s digit_not_space dg)
  have n8: "\<not> isEightDigits s"
    by (simp add: isEightDigits_def s)
  have tw: "takeWhile isDigit s = [a, b, c, d]" "dropWhile isDigit s = [45, e, f, 45, g, h]"
    using dg by (simp_all add: s) (simp_all add: isDigit_def)
  have nser: "\<not> isSerialNumber s"
    by (simp add: isSerialNumber_def tw)
  have dp: "dateParse impl s = Some (msPerDay * makeDay y (m - 1) dt)"
    unfolding dateParse_def Let_def parts y_def [symmetric] m_def [symmetric] dt_def [symmetric]
    using shape m dt dt31 by simp
  have iso: "isoDatePart (msPerDay * makeDay y (m - 1) dt)
      = padZero 4 (nat y) @ [45] @ padZero 2 (nat (m - 1 + 1)) @ [45] @ padZero 2 (nat dt)"
    unfolding isoDatePart_msPerDay
    using isoOfDay_makeDay [of "m - 1" dt y] isoOfYearDay_roundtrip [of "m - 1" dt y] m dt yb
    by simp
  have py: "padZero 4 (nat y) = [a, b, c, d]"
    unfolding y_def using digits4 [OF dg(1-4)] by simp
  have pm: "padZero 2 (nat (m - 1 + 1)) = [e, f]"
    unfolding m_def using digits2 [OF dg(5,6)] by simp
  have pd: "padZero 2 (nat dt) = [g, h]"
    unfolding dt_def using digits2 [OF dg(7,8)] by simp
  have res: "isoDatePart (msPerDay * makeDay y (m - 1) dt) = s"
    unfolding iso py pm pd s by simp
  have tru: "truthy (CStr s)" by (simp add: s)
  show ?thesis
    unfolding parseDate_def Let_def using tru by (simp add: tr n8 nser dp res)
qed

theorem parseDate_idempotent_valid_witness:
  "validIsoDate (js ''2025-01-15'')
   \<and> parseDate noOtherFormat (CStr (js ''2025-01-15'')) = Inr (Some (js ''2025-01-15''))"
proof -
  have v: "validIsoDate (js ''2025-01-15'')"
    by (simp add: validIsoDate_def ev)
  from v parseDate_idempotent_valid [OF v, of noOtherFormat] show ?thesis by blast
qed

section \<open>Properties of the store\<close>
lemma distinct_addWorkItems:
  "distinct (map srcHash prev) \<Longrightarrow> distinct (map srcHash items)
   \<Longrightarrow> distinct (map srcHash (addWorkItems prev items))"
  by (auto simp: addWorkItems_def distinct_map_filter) (metis imageI)

lemma storeAfter_snoc:
  "storeAfter (batches @ [items]) = addWorkItems (storeAfter batches) items"
  by (simp add: storeAfter_def)

lemma distinct_storeAfter:
  "list_all (\<lambda>b. distinct (map srcHash b)) batches \<Longrightarrow> distinct (map srcHash (storeAfter batches))"
proof (induction batches rule: rev_induct)
  case Nil
  show ?case by (simp add: storeAfter_def)
next
  case (snoc b bs)
  then show ?case by (simp add: storeAfter_snoc distinct_addWorkItems)
qed

text \<open>
  C9 as the claim states it fails: a batch that holds the same hash twice is added whole
  to the empty store.
\<close>

theorem addWorkItems_distinct_counterexample:
  "\<not> distinct (map srcHash (storeAfter [[mkItem (js ''h'') 8 0, mkItem (js ''h'') 7 1]]))"
  by (simp add: storeAfter_def addWorkItems_def mkItem_def)

text \<open>
  C9, amended. Starting from the empty store, after any sequence of \<open>addWorkItems\<close> calls
  whose batches each hold pairwise distinct hashes, the hashes of the store are pairwise
  distinct; a further call keeps the stored items unchanged, in place, and appends exactly
  the incoming items whose hash does not occur in the store.
\<close>

theorem addWorkItems_invariant:
  "list_all (\<lambda>b. distinct (map srcHash b)) batches \<Longrightarrow>
     distinct (map srcHash (storeAfter batches))
     \<and> storeAfter (batches @ [items]) =
         storeAfter batches
           @ filter (\<lambda>item. srcHash item \<notin> srcHash ` set (storeAfter batches)) items"
  using distinct_storeAfter [of batches]
  by (simp add: storeAfter_snoc addWorkItems_def)

theorem addWorkItems_invariant_witness:
  "list_all (\<lambda>b. distinct (map srcHash b))
     [[mkItem (js ''a'') 8 0, mkItem (js ''b'') 7 1], [mkItem (js ''b'') 7 1, mkItem (js ''c'') 1 1]]
   \<and> distinct (map srcHash (storeAfter
        [[mkItem (js ''a'') 8 0, mkItem (js ''b'') 7 1], [mkItem (js ''b'') 7 1, mkItem (js ''c'') 1 1]]))
   \<and> storeAfter ([[mkItem (js ''a'') 8 0, mkItem (js ''b'') 7 1]] @ [[mkItem (js ''b'') 7 1, mkItem (js ''c'') 1 1]])
       = [mkItem (js ''a'') 8 0, mkItem (js ''b'') 7 1, mkItem (js ''c'') 1 1]"
proof -
  have h: "list_all (\<lambda>b. distinct (map srcHash b))
     [[mkItem (js ''a'') 8 0, mkItem (js ''b'') 7 1], [mkItem (js ''b'') 7 1, mkItem (js ''c'') 1 1]]"
    by (simp add: mkItem_def js_def)
  have h1: "list_all (\<lambda>b. distinct (map srcHash b)) [[mkItem (js ''a'') 8 0, mkItem (js ''b'') 7 1]]"
    by (simp add: mkItem_def js_def)
  have s1: "storeAfter [[mkItem (js ''a'') 8 0, mkItem (js ''b'') 7 1]]
      = [mkItem (js ''a'') 8 0, mkItem (js ''b'') 7 1]"
    by (simp add: storeAfter_def addWorkItems_def)
  have d: "distinct (map srcHash (storeAfter
        [[mkItem (js ''a'') 8 0, mkItem (js ''b'') 7 1], [mkItem (js ''b'') 7 1, mkItem (js ''c'') 1 1]]))"
    using addWorkItems_invariant [OF h, of "[]"] by (rule conjunct1)
  have "storeAfter ([[mkItem (js ''a'') 8 0, mkItem (js ''b'') 7 1]] @ [[mkItem (js ''b'') 7 1, mkItem (js ''c'') 1 1]])
     = [mkItem (js ''a'') 8 0, mkItem (js ''b'') 7 1]
       @ filter (\<lambda>item. srcHash item \<notin> srcHash ` set [mkItem (js ''a'') 8 0, mkItem (js ''b'') 7 1])
           [mkItem (js ''b'') 7 1, mkItem (js ''c'') 1 1]"
    using addWorkItems_invariant [OF h1, of "[mkItem (js ''b'') 7 1, mkItem (js ''c'') 1 1]"]
    unfolding s1 by (rule conjunct2)
  then have s2: "storeAfter ([[mkItem (js ''a'') 8 0, mkItem (js ''b'') 7 1]] @ [[mkItem (js ''b'') 7 1, mkItem (js ''c'') 1 1]])
       = [mkItem (js ''a'') 8 0, mkItem (js ''b'') 7 1, mkItem (js ''c'') 1 1]"
    by (simp add: mkItem_def js_def)
  from h d s2 show ?thesis by blast
qed

section \<open>Properties of detectColumns\<close>

lemma set_validHeaders: "set (validHeaders hs) = {s. CStr s \<in> set hs \<and> s \<noteq> []}"
  by (induction hs rule: validHeaders.induct) auto

lemma findCandidate_Some:
  "findCandidate lower hs cs = Some h \<Longrightarrow>
     h \<in> set hs \<and> h \<noteq> [] \<and> list_ex (\<lambda>c. matchesHeader lower c h) cs"
proof (induction cs)
  case Nil
  then show ?case by simp
next
  case (Cons c cs)
  show ?case
  proof (cases "find (matchesHeader lower c) hs")
    case None
    with Cons show ?thesis by simp
  next
    case (Some f)
    then have f: "f \<in> set hs" "matchesHeader lower c f"
      by (auto simp: find_Some_iff)
    show ?thesis
    proof (cases "f = []")
      case True
      with Some Cons show ?thesis by simp
    next
      case False
      with Some Cons.prems have "h = f" by simp
      with f False show ?thesis by simp
    qed
  qed
qed

lemma findCandidate_None:
  assumes "\<forall>h \<in> set hs. h \<noteq> []"
  shows "findCandidate lower hs cs = None
     \<longleftrightarrow> \<not> list_ex (\<lambda>c. list_ex (matchesHeader lower c) hs) cs"
using assms proof (induction cs)
  case Nil
  then show ?case by simp
next
  case (Cons c cs)
  show ?case
  proof (cases "find (matchesHeader lower c) hs")
    case None
    then have "\<not> list_ex (matchesHeader lower c) hs"
      by (simp add: find_None_iff list_ex_iff)
    with None Cons show ?thesis by simp
  next
    case (Some f)
    then have f: "f \<in> set hs" "matchesHeader lower c f"
      by (auto simp: find_Some_iff)
    then have "f \<noteq> []" "list_ex (matchesHeader lower c) hs"
      using Cons.prems by (auto simp: list_ex_iff)
    with Some show ?thesis by simp
  qed
qed

lemma foldl_detectStep_notin:
  "key \<notin> fst ` set es \<Longrightarrow> foldl (detectStep lower hs) m es key = m key"
  by (induction es arbitrary: m) (auto simp: detectStep_def split: option.splits)

lemma foldl_detectStep_in:
  "distinct (map fst es) \<Longrightarrow> (key, cs) \<in> set es \<Longrightarrow>
     foldl (detectStep lower hs) m es key
       = (case findCandidate lower hs cs of None \<Rightarrow> m key | Some h \<Rightarrow> Some h)"
proof (induction es arbitrary: m)
  case Nil
  then show ?case by simp
next
  case (Cons e es)
  show ?case
  proof (cases "e = (key, cs)")
    case True
    with Cons.prems have "key \<notin> fst ` set es" by auto
    then have "foldl (detectStep lower hs) m (e # es) key = detectStep lower hs m e key"
      by (simp add: foldl_detectStep_notin)
    also have "\<dots> = (case findCandidate lower hs cs of None \<Rightarrow> m key | Some h \<Rightarrow> Some h)"
      using True by (simp add: detectStep_def split: option.splits)
    finally show ?thesis .
  next
    case False
    with Cons.prems have in_es: "(key, cs) \<in> set es" and d: "distinct (map fst es)"
      and ne: "fst e \<noteq> key"
      by (auto simp: rev_image_eqI)
    have "detectStep lower hs m e key = m key"
      using ne by (auto simp: detectStep_def split: option.splits)
    then show ?thesis
      using Cons.IH [OF d in_es] by (simp split: option.splits)
  qed
qed

lemma distinct_COLUMN_CANDIDATES: "distinct (map fst COLUMN_CANDIDATES)"
  by (simp add: COLUMN_CANDIDATES_def js_def)

lemmas dv = COLUMN_CANDIDATES_def js_def asciiLower_def trim_def isWhiteSpace_def
  matchesHeader_def detectStep_def detectColumns_def Let_def

text \<open>
  C6 as the claim states it fails: for the single header \<open>work\<close> the field \<open>workDate\<close>
  is mapped to it (its candidate \<open>work_date\<close> contains the header) and so is the later
  field \<open>subworkCode\<close> (its candidate \<open>subwork\<close> contains it too).
\<close>

theorem detectColumns_shared_header_counterexample:
  "detectColumns asciiLower [CStr (js ''work'')] (js ''workDate'') = Some (js ''work'')
   \<and> detectColumns asciiLower [CStr (js ''work'')] (js ''subworkCode'') = Some (js ''work'')"
  by (simp add: dv)

text \<open>
  C6, amended. In \<open>detectColumns\<close> every canonical field is matched on its own, whatever
  the fields before it were mapped to: the field is mapped exactly when some valid header
  (a non-empty string of the header list) matches one of its candidates, and then to the
  header that the loop over its own candidates finds, a valid header matching one of its
  candidates. No header is claimed, so several fields can be mapped to the same header.
\<close>

theorem detectColumns_per_field:
  assumes "(key, candidates) \<in> set COLUMN_CANDIDATES"
  shows "detectColumns lower headers key = findCandidate lower (validHeaders headers) candidates
    \<and> (detectColumns lower headers key = None
        \<longleftrightarrow> \<not> list_ex (\<lambda>c. list_ex (matchesHeader lower c) (validHeaders headers)) candidates)
    \<and> (\<forall>h. detectColumns lower headers key = Some h
          \<longrightarrow> CStr h \<in> set headers \<and> h \<noteq> []
              \<and> list_ex (\<lambda>c. matchesHeader lower c h) candidates)"
proof -
  have eq: "detectColumns lower headers key = findCandidate lower (validHeaders headers) candidates"
    unfolding detectColumns_def
    using foldl_detectStep_in [OF distinct_COLUMN_CANDIDATES assms, of lower "validHeaders headers" Map.empty]
    by (simp split: option.splits)
  have ne: "\<forall>h \<in> set (validHeaders headers). h \<noteq> []"
    by (simp add: set_validHeaders)
  have none: "detectColumns lower headers key = None
        \<longleftrightarrow> \<not> list_ex (\<lambda>c. list_ex (matchesHeader lower c) (validHeaders headers)) candidates"
    unfolding eq by (rule findCandidate_None [OF ne])
  have some: "\<forall>h. detectColumns lower headers key = Some h
          \<longrightarrow> CStr h \<in> set headers \<and> h \<noteq> []
              \<and> list_ex (\<lambda>c. matchesHeader lower c h) candidates"
    unfolding eq using findCandidate_Some [of lower "validHeaders headers" candidates]
    by (auto simp: set_validHeaders)
  from eq none some show ?thesis by blast
qed

theorem detectColumns_per_field_witness:
  "(js ''subworkCode'',
      [[23567, 21306, 20998],
       [23567, 21306, 20998] @ js ''(code'' @ [20363] @ js '': 25K/211/...)'',
       js ''subwork'', js ''work_code'', [20316, 26989], [24037, 31278]])
     \<in> set COLUMN_CANDIDATES
   \<and> detectColumns asciiLower [CStr (js ''work'')] (js ''subworkCode'')
       = findCandidate asciiLower (validHeaders [CStr (js ''work'')])
           [[23567, 21306, 20998],
            [23567, 21306, 20998] @ js ''(code'' @ [20363] @ js '': 25K/211/...)'',
            js ''subwork'', js ''work_code'', [20316, 26989], [24037, 31278]]"
proof -
  have m: "(js ''subworkCode'',
      [[23567, 21306, 20998],
       [23567, 21306, 20998] @ js ''(code'' @ [20363] @ js '': 25K/211/...)'',
       js ''subwork'', js ''work_code'', [20316, 26989], [24037, 31278]])
     \<in> set COLUMN_CANDIDATES"
    by (simp add: COLUMN_CANDIDATES_def)
  from m detectColumns_per_field [OF m, of asciiLower "[CStr (js ''work'')]"]
  show ?thesis by blast
qed

section \<open>Properties of the undefined-code check\<close>

lemma sum_length_filter_eq:
  "finite A \<Longrightarrow>
     (\<Sum>c \<in> A. length (filter (\<lambda>x. f x = c) xs)) = length (filter (\<lambda>x. f x \<in> A) xs)"
proof (induction xs)
  case Nil
  then show ?case by simp
next
  case (Cons x xs)
  have "(\<Sum>c \<in> A. length (filter (\<lambda>y. f y = c) (x # xs)))
      = (\<Sum>c \<in> A. (if f x = c then 1 else 0) + length (filter (\<lambda>y. f y = c) xs))"
    by (rule sum.cong) auto
  also have "\<dots> = (\<Sum>c \<in> A. if f x = c then 1 else 0)
      + (\<Sum>c \<in> A. length (filter (\<lambda>y. f y = c) xs))"
    by (rule sum.distrib)
  also have "(\<Sum>c \<in> A. if f x = c then 1 else 0) = (if f x \<in> A then 1 else (0::nat))"
    using Cons.prems by (simp add: sum.delta)
  finally show ?case
    using Cons.IH [OF Cons.prems] by simp
qed

lemma set_undefinedCodesOf:
  "set (undefinedCodesOf codes items)
     = {item \<in> set items. subworkCode item \<noteq> []
          \<and> subworkCode item \<notin> WorkCode.subworkCode ` set codes}"
  by (auto simp: undefinedCodesOf_def)

lemma length_undefinedCodesOf:
  "length (undefinedCodesOf codes items)
     = (\<Sum>c \<in> subworkCode ` set (undefinedCodesOf codes items).
          length (filter (\<lambda>item. subworkCode item = c) items))"
proof -
  let ?A = "subworkCode ` set (undefinedCodesOf codes items)"
  have "filter (\<lambda>item. subworkCode item \<in> ?A) items = undefinedCodesOf codes items"
    unfolding undefinedCodesOf_def Let_def
    by (rule filter_cong) (auto simp: image_iff)
  then show ?thesis
    using sum_length_filter_eq [of ?A subworkCode items] by simp
qed

lemmas uv = js_def mkItem_def undefinedCodesOf_def importResult_def uniqueItemsOf_def
  duplicatesOf_def dedupItems_def Let_def

text \<open>
  C5 as the claim states it fails. Of three unique records of a file without taxonomy, two
  with the code \<open>X\<close> and one with an empty code, so that no code has a taxonomy entry:
  the check keeps the two records with \<open>X\<close>, one entry for each occurrence and not one for
  the code, the record with the empty code is not reported, and the import reports the
  number 2.
\<close>

theorem undefinedCodes_grouped_counterexample:
  "undefinedCodesOf []
     [(mkItem (js ''a'') 8 0)\<lparr>workDate := js ''2025-01-16'', subworkCode := js ''X''\<rparr>,
      (mkItem (js ''b'') 8 0)\<lparr>workDate := js ''2025-01-15'', subworkCode := js ''X''\<rparr>,
      (mkItem (js ''c'') 8 0)\<lparr>workDate := js ''2025-01-14'', subworkCode := []\<rparr>]
   = [(mkItem (js ''a'') 8 0)\<lparr>workDate := js ''2025-01-16'', subworkCode := js ''X''\<rparr>,
      (mkItem (js ''b'') 8 0)\<lparr>workDate := js ''2025-01-15'', subworkCode := js ''X''\<rparr>]
   \<and> undefinedCodes (importResult []
     [(mkItem (js ''a'') 8 0)\<lparr>workDate := js ''2025-01-16'', subworkCode := js ''X''\<rparr>,
      (mkItem (js ''b'') 8 0)\<lparr>workDate := js ''2025-01-15'', subworkCode := js ''X''\<rparr>,
      (mkItem (js ''c'') 8 0)\<lparr>workDate := js ''2025-01-14'', subworkCode := []\<rparr>]) = 2"
  by (simp add: uv)

text \<open>
  C5, amended. For every batch of unique records and every taxonomy, the check keeps exactly
  the records whose sub-work code is not empty and is not the code of a taxonomy entry, one
  entry for each such record; so their number is the sum, over the distinct codes kept, of
  the number of occurrences of the code among the unique records. The import reports this
  number only, for the unique records of the batch: the entries are not grouped by code and
  no first date is computed.
\<close>

theorem undefinedCodes_per_occurrence:
  "set (undefinedCodesOf codes items)
     = {item \<in> set items. subworkCode item \<noteq> []
          \<and> subworkCode item \<notin> WorkCode.subworkCode ` set codes}
   \<and> length (undefinedCodesOf codes items)
     = (\<Sum>c \<in> subworkCode ` set (undefinedCodesOf codes items).
          length (filter (\<lambda>item. subworkCode item = c) items))
   \<and> undefinedCodes (importResult codes itemsWithHash)
     = length (undefinedCodesOf codes (uniqueItemsOf itemsWithHash))"
  using set_undefinedCodesOf [of codes items] length_undefinedCodesOf [of codes items]
  by (simp add: importResult_def)

section \<open>Properties of the aggregation by work type\<close>

lemmas av = js_def mkItem_def inheritedKeys_def groupKey_def addHours_def groupStep_def
  fallbackName_def workTypeNameOf_def addGroup_def mergeStep_def aggregateByWorkType_def
  groupStep_spec_def aggregateByWorkType_spec_def AList.map_entry.simps


text \<open>
  The source groups by the string \<open>projectCode_subworkCode\<close>. It agrees with the grouping
  by the pair of codes on every collection in which no two records with different pairs share
  that string and no string names an inherited property.
\<close>

lemma sameGroups_snd: "sameGroups S acc acc' \<Longrightarrow> map snd acc = map snd acc'"
  unfolding sameGroups_def by (induction rule: list_all2_induct) auto

lemma groupKey_pair:
  assumes "x \<in> S" and "r \<in> S"
    and "\<forall>a \<in> S. \<forall>b \<in> S. groupKey a = groupKey b
           \<longrightarrow> WorkItem.projectCode a = WorkItem.projectCode b
               \<and> WorkItem.subworkCode a = WorkItem.subworkCode b"
  shows "groupKey r = groupKey x
     \<longleftrightarrow> (WorkItem.projectCode r, WorkItem.subworkCode r)
         = (WorkItem.projectCode x, WorkItem.subworkCode x)"
proof
  assume "groupKey r = groupKey x"
  with assms show "(WorkItem.projectCode r, WorkItem.subworkCode r)
         = (WorkItem.projectCode x, WorkItem.subworkCode x)"
    by blast
next
  assume "(WorkItem.projectCode r, WorkItem.subworkCode r)
         = (WorkItem.projectCode x, WorkItem.subworkCode x)"
  then show "groupKey r = groupKey x"
    by (simp add: groupKey_def)
qed

lemma sameGroups_map_of:
  assumes "sameGroups S acc acc'" and "x \<in> S"
    and "\<forall>a \<in> S. \<forall>b \<in> S. groupKey a = groupKey b
           \<longrightarrow> WorkItem.projectCode a = WorkItem.projectCode b
               \<and> WorkItem.subworkCode a = WorkItem.subworkCode b"
  shows "map_of acc (groupKey x) = None
     \<longleftrightarrow> map_of acc' (WorkItem.projectCode x, WorkItem.subworkCode x) = None"
  using assms(1) unfolding sameGroups_def
proof (induction rule: list_all2_induct)
  case Nil
  then show ?case by simp
next
  case (Cons e acc e' acc')
  then obtain r where r: "r \<in> S" "fst e = groupKey r"
      "fst e' = (WorkItem.projectCode r, WorkItem.subworkCode r)"
    by blast
  obtain a g where e: "e = (a, g)" by (cases e)
  obtain a' g' where e': "e' = (a', g')" by (cases e')
  have k: "a = groupKey x \<longleftrightarrow> a' = (WorkItem.projectCode x, WorkItem.subworkCode x)"
    using groupKey_pair [OF assms(2) r(1) assms(3)] r(2,3) e e' by auto
  show ?case
  proof (cases "a = groupKey x")
    case True
    then have t: "a' = (WorkItem.projectCode x, WorkItem.subworkCode x)" using k by simp
    show ?thesis by (simp add: e e' True t)
  next
    case False
    then have t: "a' \<noteq> (WorkItem.projectCode x, WorkItem.subworkCode x)" using k by simp
    from False have f: "groupKey x \<noteq> a" by blast
    from t have t': "(WorkItem.projectCode x, WorkItem.subworkCode x) \<noteq> a'" by blast
    have "map_of (e # acc) (groupKey x) = map_of acc (groupKey x)"
      using f by (simp add: e)
    moreover have "map_of (e' # acc') (WorkItem.projectCode x, WorkItem.subworkCode x)
        = map_of acc' (WorkItem.projectCode x, WorkItem.subworkCode x)"
      using t' by (simp add: e')
    ultimately show ?thesis
      using Cons.IH by (simp only:)
  qed
qed

lemma sameGroups_map_entry:
  assumes "sameGroups S acc acc'" and "x \<in> S"
    and "\<forall>a \<in> S. \<forall>b \<in> S. groupKey a = groupKey b
           \<longrightarrow> WorkItem.projectCode a = WorkItem.projectCode b
               \<and> WorkItem.subworkCode a = WorkItem.subworkCode b"
  shows "sameGroups S (AList.map_entry (groupKey x) f acc)
           (AList.map_entry (WorkItem.projectCode x, WorkItem.subworkCode x) f acc')"
  using assms(1) unfolding sameGroups_def
proof (induction rule: list_all2_induct)
  case Nil
  then show ?case by simp
next
  case (Cons e acc e' acc')
  then obtain r where r: "r \<in> S" "fst e = groupKey r"
      "fst e' = (WorkItem.projectCode r, WorkItem.subworkCode r)"
    by blast
  obtain a g where e: "e = (a, g)" by (cases e)
  obtain a' g' where e': "e' = (a', g')" by (cases e')
  have g: "g = g'" using Cons.hyps(1) e e' by simp
  have k: "a = groupKey x \<longleftrightarrow> a' = (WorkItem.projectCode x, WorkItem.subworkCode x)"
    using groupKey_pair [OF assms(2) r(1) assms(3)] r(2,3) e e' by auto
  show ?case
  proof (cases "a = groupKey x")
    case True
    then have t: "a' = (WorkItem.projectCode x, WorkItem.subworkCode x)" using k by simp
    have "\<exists>r \<in> S. a = groupKey r \<and> a' = (WorkItem.projectCode r, WorkItem.subworkCode r)"
      using r e e' by auto
    then show ?thesis
      using Cons.hyps(2) by (simp add: e e' True t g)
  next
    case False
    then have t: "a' \<noteq> (WorkItem.projectCode x, WorkItem.subworkCode x)" using k by simp
    have "\<exists>r \<in> S. a = groupKey r \<and> a' = (WorkItem.projectCode r, WorkItem.subworkCode r)"
      using r e e' by auto
    then show ?thesis
      using Cons.IH by (simp add: e e' False t g)
  qed
qed

lemma sameGroups_snoc:
  assumes "sameGroups S acc acc'" and "x \<in> S"
  shows "sameGroups S (acc @ [(groupKey x, g)])
       (acc' @ [((WorkItem.projectCode x, WorkItem.subworkCode x), g)])"
proof -
  have "\<exists>r \<in> S. groupKey x = groupKey r
      \<and> (WorkItem.projectCode x, WorkItem.subworkCode x)
          = (WorkItem.projectCode r, WorkItem.subworkCode r)"
    using assms(2) by (intro bexI [of _ x]) simp_all
  then have "list_all2 (\<lambda>e e'. snd e = snd e'
        \<and> (\<exists>r \<in> S. fst e = groupKey r
              \<and> fst e' = (WorkItem.projectCode r, WorkItem.subworkCode r)))
      [(groupKey x, g)] [((WorkItem.projectCode x, WorkItem.subworkCode x), g)]"
    by simp
  with assms(1) show ?thesis
    unfolding sameGroups_def by (rule list_all2_appendI)
qed

lemma sameGroups_step:
  assumes "sameGroups S acc acc'" and "x \<in> S" and "groupKey x \<notin> set inheritedKeys"
    and "\<forall>a \<in> S. \<forall>b \<in> S. groupKey a = groupKey b
           \<longrightarrow> WorkItem.projectCode a = WorkItem.projectCode b
               \<and> WorkItem.subworkCode a = WorkItem.subworkCode b"
  shows "sameGroups S (groupStep acc x) (groupStep_spec acc' x)"
proof (cases "map_of acc (groupKey x)")
  case None
  then have n: "map_of acc' (WorkItem.projectCode x, WorkItem.subworkCode x) = None"
    using sameGroups_map_of [OF assms(1,2,4)] by simp
  have l: "groupStep acc x = AList.map_entry (groupKey x) (addHours x)
      (acc @ [(groupKey x, \<lparr> WorkTypeGroup.projectCode = WorkItem.projectCode x,
                            WorkTypeGroup.subworkCode = WorkItem.subworkCode x,
                            WorkTypeGroup.kinai = Num 0, WorkTypeGroup.kigai = Num 0,
                            WorkTypeGroup.kei = Num 0 \<rparr>)])"
    unfolding groupStep_def Let_def using None assms(3) by simp
  have r: "groupStep_spec acc' x
      = AList.map_entry (WorkItem.projectCode x, WorkItem.subworkCode x) (addHours x)
      (acc' @ [((WorkItem.projectCode x, WorkItem.subworkCode x),
                 \<lparr> WorkTypeGroup.projectCode = WorkItem.projectCode x,
                   WorkTypeGroup.subworkCode = WorkItem.subworkCode x,
                   WorkTypeGroup.kinai = Num 0, WorkTypeGroup.kigai = Num 0,
                   WorkTypeGroup.kei = Num 0 \<rparr>)])"
    unfolding groupStep_spec_def Let_def using n by simp
  show ?thesis
    unfolding l r
    by (rule sameGroups_map_entry [OF sameGroups_snoc [OF assms(1,2)] assms(2,4)])
next
  case (Some g)
  then obtain g' where s: "map_of acc' (WorkItem.projectCode x, WorkItem.subworkCode x) = Some g'"
    using sameGroups_map_of [OF assms(1,2,4)] by auto
  have l: "groupStep acc x = AList.map_entry (groupKey x) (addHours x) acc"
    unfolding groupStep_def Let_def using Some assms(3) by simp
  have r: "groupStep_spec acc' x
      = AList.map_entry (WorkItem.projectCode x, WorkItem.subworkCode x) (addHours x) acc'"
    unfolding groupStep_spec_def Let_def using s by simp
  show ?thesis
    unfolding l r by (rule sameGroups_map_entry [OF assms(1,2,4)])
qed

lemma sameGroups_foldl:
  assumes "\<forall>a \<in> S. \<forall>b \<in> S. groupKey a = groupKey b
           \<longrightarrow> WorkItem.projectCode a = WorkItem.projectCode b
               \<and> WorkItem.subworkCode a = WorkItem.subworkCode b"
    and "\<forall>a \<in> S. groupKey a \<notin> set inheritedKeys"
  shows "set xs \<subseteq> S \<Longrightarrow> sameGroups S acc acc' \<Longrightarrow>
     sameGroups S (foldl groupStep acc xs) (foldl groupStep_spec acc' xs)"
proof (induction xs arbitrary: acc acc')
  case Nil
  then show ?case by simp
next
  case (Cons x xs)
  from Cons.prems(1) have x: "x \<in> S" and sub: "set xs \<subseteq> S"
    by simp_all
  from x assms(2) have nk: "groupKey x \<notin> set inheritedKeys"
    by blast
  have "sameGroups S (groupStep acc x) (groupStep_spec acc' x)"
    by (rule sameGroups_step [OF Cons.prems(2) x nk assms(1)])
  then have "sameGroups S (foldl groupStep (groupStep acc x) xs)
      (foldl groupStep_spec (groupStep_spec acc' x) xs)"
    by (rule Cons.IH [OF sub])
  then show ?case
    by (simp only: foldl_Cons)
qed

lemma aggregateByWorkType_agrees:
  assumes "\<forall>a \<in> set workItems. \<forall>b \<in> set workItems. groupKey a = groupKey b
           \<longrightarrow> WorkItem.projectCode a = WorkItem.projectCode b
               \<and> WorkItem.subworkCode a = WorkItem.subworkCode b"
    and "\<forall>a \<in> set workItems. groupKey a \<notin> set inheritedKeys"
  shows "aggregateByWorkType workItems workCodes = aggregateByWorkType_spec workItems workCodes"
proof -
  have "sameGroups (set workItems) [] []"
    by (simp add: sameGroups_def)
  then have "sameGroups (set workItems) (foldl groupStep [] workItems)
      (foldl groupStep_spec [] workItems)"
    using sameGroups_foldl [OF assms, of workItems "[]" "[]"] by simp
  then have "map snd (foldl groupStep [] workItems) = map snd (foldl groupStep_spec [] workItems)"
    by (rule sameGroups_snd)
  then show ?thesis
    by (cases "workItems = []") (simp_all add: aggregateByWorkType_def aggregateByWorkType_spec_def)
qed

text \<open>
  The example of the specification: two records of regular hours 8.0 and 7.5 and overtime
  hours 1.5 and 0.5, of different projects and one category \<open>M\<close>.
\<close>

lemma aggregateByWorkType_example:
  "aggregateByWorkType
     [(mkItem (js ''a'') 8 (3 / 2))\<lparr>WorkItem.projectCode := js ''P'', WorkItem.subworkCode := js ''211''\<rparr>,
      (mkItem (js ''b'') (15 / 2) (1 / 2))\<lparr>WorkItem.projectCode := js ''Q'', WorkItem.subworkCode := js ''211''\<rparr>]
     [\<lparr>WorkCode.subworkCode = js ''211'', subworkName = js ''S'', majorCode = js ''2'',
       majorName = js ''M'', note' = None, version = js ''1'', updatedAt = []\<rparr>]
   = [\<lparr>name = js ''M'', kinai = Num (31 / 2), kigai = Num 2, kei = Num (35 / 2)\<rparr>]"
  by (simp add: av nv)

text \<open>
  A record whose key is \<open>__proto__\<close> is lost: no group is made for it.
\<close>

lemma aggregateByWorkType_inherited_key:
  "aggregateByWorkType
     [(mkItem (js ''a'') 8 1)\<lparr>WorkItem.projectCode := [], WorkItem.subworkCode := js ''_proto__''\<rparr>] []
   = []
   \<and> aggregateByWorkType_spec
     [(mkItem (js ''a'') 8 1)\<lparr>WorkItem.projectCode := [], WorkItem.subworkCode := js ''_proto__''\<rparr>] []
   = [\<lparr>name = [24037, 20107] @ js ''__proto__'', kinai = Num 8, kigai = Num 1, kei = Num 9\<rparr>]"
  by (simp add: av nv)

text \<open>
  C4. The grouping is not by the pair of the project code and the sub-work code. The
  records of project \<open>A_1\<close> with sub-work code \<open>2\<close> and of project \<open>A\<close> with sub-work
  code \<open>1_2\<close> have the same string key \<open>A_1_2\<close>; with a taxonomy that knows the code
  \<open>2\<close> as category \<open>X\<close> and does not know \<open>1_2\<close>, \<open>aggregateByWorkType\<close> returns the
  single category \<open>X\<close> with the hours of both records, 12, 1 and 13. Grouped by the pair,
  as the claim says, the first record alone makes category \<open>X\<close> with 8, 1 and 9 hours and
  the second gets the synthesized name with 4, 0 and 4 hours.
\<close>

theorem aggregateByWorkType_key_collision:
  "aggregateByWorkType
     [(mkItem (js ''a'') 8 1)\<lparr>WorkItem.projectCode := js ''A_1'', WorkItem.subworkCode := js ''2''\<rparr>,
      (mkItem (js ''b'') 4 0)\<lparr>WorkItem.projectCode := js ''A'', WorkItem.subworkCode := js ''1_2''\<rparr>]
     [\<lparr>WorkCode.subworkCode = js ''2'', subworkName = js ''S'', majorCode = js ''M'',
       majorName = js ''X'', note' = None, version = js ''1'', updatedAt = []\<rparr>]
   = [\<lparr>name = js ''X'', kinai = Num 12, kigai = Num 1, kei = Num 13\<rparr>]
   \<and> aggregateByWorkType_spec
     [(mkItem (js ''a'') 8 1)\<lparr>WorkItem.projectCode := js ''A_1'', WorkItem.subworkCode := js ''2''\<rparr>,
      (mkItem (js ''b'') 4 0)\<lparr>WorkItem.projectCode := js ''A'', WorkItem.subworkCode := js ''1_2''\<rparr>]
     [\<lparr>WorkCode.subworkCode = js ''2'', subworkName = js ''S'', majorCode = js ''M'',
       majorName = js ''X'', note' = None, version = js ''1'', updatedAt = []\<rparr>]
   = [\<lparr>name = js ''X'', kinai = Num 8, kigai = Num 1, kei = Num 9\<rparr>,
      \<lparr>name = [24037, 20107] @ js ''A_1_2'', kinai = Num 4, kigai = Num 0, kei = Num 4\<rparr>]"
  by (simp add: av nv)

section \<open>Properties of the content hash\<close>

lemmas hv = ev rowKey_def utf8Bytes3_def utf8Bytes4_def base64Char_def isAlphaNum_def toInt32_def
  hashStep_def base36Char_def toString36.simps generateRowHash_def mkItem_def

text \<open>
  C1 as the claim states it fails: two records that differ in \<open>workDate\<close> and in
  \<open>contractorName\<close> have the same joined key, since the delimiter \<open>_\<close> may occur inside a
  field, and so the same hash, on the base64 path and on the fallback path.
\<close>

theorem generateRowHash_collision_counterexample:
  "workDate ((mkItem [] 8 0)\<lparr>workDate := js ''2025-01-15_A'', contractorName := js ''B''\<rparr>)
     \<noteq> workDate ((mkItem [] 8 0)\<lparr>workDate := js ''2025-01-15'', contractorName := js ''A_B''\<rparr>)
   \<and> contractorName ((mkItem [] 8 0)\<lparr>workDate := js ''2025-01-15_A'', contractorName := js ''B''\<rparr>)
     \<noteq> contractorName ((mkItem [] 8 0)\<lparr>workDate := js ''2025-01-15'', contractorName := js ''A_B''\<rparr>)
   \<and> generateRowHash True
        ((mkItem [] 8 0)\<lparr>workDate := js ''2025-01-15_A'', contractorName := js ''B''\<rparr>)
       = js ''MjAyNS0wMS0xNV9BX0JfX19fXzhfMA''
   \<and> generateRowHash True
        ((mkItem [] 8 0)\<lparr>workDate := js ''2025-01-15'', contractorName := js ''A_B''\<rparr>)
       = js ''MjAyNS0wMS0xNV9BX0JfX19fXzhfMA''
   \<and> generateRowHash False
        ((mkItem [] 8 0)\<lparr>workDate := js ''2025-01-15_A'', contractorName := js ''B''\<rparr>)
       = js ''6a5pjn''
   \<and> generateRowHash False
        ((mkItem [] 8 0)\<lparr>workDate := js ''2025-01-15'', contractorName := js ''A_B''\<rparr>)
       = js ''6a5pjn''"
  by (simp add: hv)

text \<open>
  C1, amended. The content hash is a function of the significant fields: two records
  that agree on \<open>workDate\<close>, \<open>contractorName\<close>, \<open>projectCode\<close>, \<open>subworkCode\<close>,
  \<open>subareaCode\<close>, \<open>reporter\<close>, \<open>inHours\<close> and \<open>outHours\<close> have the same hash, whatever
  their other fields hold and on either path of \<open>generateRowHash\<close>.
\<close>

theorem generateRowHash_significant_fields:
  assumes "workDate a = workDate b" and "contractorName a = contractorName b"
    and "projectCode a = projectCode b" and "WorkItem.subworkCode a = WorkItem.subworkCode b"
    and "subareaCode a = subareaCode b" and "reporter a = reporter b"
    and "inHours a = inHours b" and "outHours a = outHours b"
  shows "generateRowHash env a = generateRowHash env b"
proof -
  have "rowKey a = rowKey b"
    using assms by (simp add: rowKey_def)
  then show ?thesis
    by (simp add: generateRowHash_def)
qed

theorem generateRowHash_significant_fields_witness:
  "id' ((mkItem [] 8 (3 / 2))\<lparr>id' := js ''work_1'', headcount := Num 5,
          employmentCode := js ''E1'', createdAt := js ''2025-01-15T00:00:00.000Z''\<rparr>)
     \<noteq> id' ((mkItem [] 8 (3 / 2))\<lparr>id' := js ''work_2'', headcount := Num 3,
          employmentCode := js ''E2'', createdAt := js ''2025-01-16T00:00:00.000Z''\<rparr>)
   \<and> generateRowHash True
        ((mkItem [] 8 (3 / 2))\<lparr>id' := js ''work_1'', headcount := Num 5,
          employmentCode := js ''E1'', createdAt := js ''2025-01-15T00:00:00.000Z''\<rparr>)
       = generateRowHash True
        ((mkItem [] 8 (3 / 2))\<lparr>id' := js ''work_2'', headcount := Num 3,
          employmentCode := js ''E2'', createdAt := js ''2025-01-16T00:00:00.000Z''\<rparr>)
   \<and> generateRowHash False
        ((mkItem [] 8 (3 / 2))\<lparr>id' := js ''work_1'', headcount := Num 5,
          employmentCode := js ''E1'', createdAt := js ''2025-01-15T00:00:00.000Z''\<rparr>)
       = generateRowHash False
        ((mkItem [] 8 (3 / 2))\<lparr>id' := js ''work_2'', headcount := Num 3,
          employmentCode := js ''E2'', createdAt := js ''2025-01-16T00:00:00.000Z''\<rparr>)"
proof -
  have d: "id' ((mkItem [] 8 (3 / 2))\<lparr>id' := js ''work_1'', headcount := Num 5,
          employmentCode := js ''E1'', createdAt := js ''2025-01-15T00:00:00.000Z''\<rparr>)
     \<noteq> id' ((mkItem [] 8 (3 / 2))\<lparr>id' := js ''work_2'', headcount := Num 3,
          employmentCode := js ''E2'', createdAt := js ''2025-01-16T00:00:00.000Z''\<rparr>)"
    by (simp add: js_def)
  have h: "generateRowHash env
        ((mkItem [] 8 (3 / 2))\<lparr>id' := js ''work_1'', headcount := Num 5,
          employmentCode := js ''E1'', createdAt := js ''2025-01-15T00:00:00.000Z''\<rparr>)
       = generateRowHash env
        ((mkItem [] 8 (3 / 2))\<lparr>id' := js ''work_2'', headcount := Num 3,
          employmentCode := js ''E2'', createdAt := js ''2025-01-16T00:00:00.000Z''\<rparr>)" for env
    by (rule generateRowHash_significant_fields) simp_all
  from d h [of True] h [of False] show ?thesis by blast
qed

section \<open>Properties of the totals\<close>

lemmas fv = nv calculateTotals_def mkItem_def

lemma foldl_numAdd_map:
  "foldl (\<lambda>sum item. numAdd sum (f item)) a ws = foldl numAdd a (map f ws)"
  by (induction ws arbitrary: a) simp_all

lemma numToFixed1_zero: "numToFixed1 (Num 0) = Num 0"
  by (simp add: roundToDouble_def floor_rat_one_numeral)

lemma overtimeRatio_example1:
  "numToFixed1 (numMul (numDiv (Num 2) (numAdd (Num (31 / 2)) (Num 2))) (Num 100))
     = roundToDouble (57 / 5)"
  by (simp add: fv)

lemma overtimeRatio_example2:
  "numToFixed1 (numMul (numDiv (Num 1) (numAdd (Num 3) (Num 1))) (Num 100)) = Num 25"
  by (simp add: fv)

lemma numPositive_example1: "numPositive (numAdd (Num (31 / 2)) (Num 2))"
  by (simp add: fv)

lemma numPositive_example2: "numPositive (numAdd (Num 3) (Num 1))"
  by (simp add: fv)

text \<open>
  C3 as the claim states it fails: for one record with 57 regular and 23 overtime hours
  the exact quotient \<open>100 * 23 / 80\<close> is 28.75, which is 28.8 to one decimal place under
  both roundings the specification allows, but the binary64 quotient lies just below 28.75
  and \<open>calculateTotals\<close> returns the double 28.7.
\<close>

theorem calculateTotals_rounding_counterexample:
  "totalInHours (calculateTotals [mkItem [] 57 23]) = Num 57
   \<and> totalOutHours (calculateTotals [mkItem [] 57 23]) = Num 23
   \<and> Totals.totalHours (calculateTotals [mkItem [] 57 23]) = Num 80
   \<and> overtimeRatio (calculateTotals [mkItem [] 57 23]) = roundToDouble (287 / 10)
   \<and> (100 * 23 / 80 :: rat) = 115 / 4
   \<and> \<lfloor>(115 / 4 :: rat) * 10 + 1 / 2\<rfloor> = 288
   \<and> roundHalfEven (115 / 4 * 10) = 288
   \<and> roundToDouble (287 / 10) \<noteq> roundToDouble (288 / 10)"
  by (simp add: fv)

text \<open>
  C3, amended. \<open>calculateTotals\<close> returns \<open>totalInHours\<close> and \<open>totalOutHours\<close> as the
  binary64 sums of \<open>inHours\<close> and of \<open>outHours\<close>, added from left to right starting at 0,
  and \<open>totalHours\<close> as their binary64 sum. When \<open>totalHours > 0\<close>, \<open>overtimeRatio\<close> is
  \<open>Number(r.toFixed(1))\<close> for the binary64 value \<open>r\<close> of
  \<open>totalOutHours / totalHours * 100\<close>; otherwise (a total that is zero, negative or NaN)
  it is 0 and no division is evaluated. Sums 15.5 and 2 give the double 11.4, sums 3 and 1
  give 25, the empty collection gives 0 in every field.
\<close>

theorem calculateTotals_binary64:
  "(let r = calculateTotals ws;
        tin = foldl numAdd (Num 0) (map inHours ws);
        tout = foldl numAdd (Num 0) (map outHours ws);
        total = numAdd tin tout
    in totalInHours r = tin \<and> totalOutHours r = tout \<and> Totals.totalHours r = total
       \<and> overtimeRatio r =
           (if numPositive total then numToFixed1 (numMul (numDiv tout total) (Num 100))
            else Num 0)
       \<and> (tin = Num (31 / 2) \<and> tout = Num 2 \<longrightarrow> overtimeRatio r = roundToDouble (57 / 5))
       \<and> (tin = Num 3 \<and> tout = Num 1 \<longrightarrow> overtimeRatio r = Num 25))
   \<and> calculateTotals [] =
       \<lparr> totalInHours = Num 0, totalOutHours = Num 0, totalHours = Num 0,
         overtimeRatio = Num 0 \<rparr>"
proof -
  define tin where "tin = foldl numAdd (Num 0) (map inHours ws)"
  define tout where "tout = foldl numAdd (Num 0) (map outHours ws)"
  define total where "total = numAdd tin tout"
  define r where "r = calculateTotals ws"
  have ti: "foldl (\<lambda>sum item. numAdd sum (inHours item)) (Num 0) ws = tin"
    unfolding tin_def by (rule foldl_numAdd_map)
  have to: "foldl (\<lambda>sum item. numAdd sum (outHours item)) (Num 0) ws = tout"
    unfolding tout_def by (rule foldl_numAdd_map)
  have a: "totalInHours r = tin" "totalOutHours r = tout" "Totals.totalHours r = total"
    by (simp_all add: r_def total_def calculateTotals_def Let_def ti to)
  have b: "overtimeRatio r =
      (if numPositive total then numToFixed1 (numMul (numDiv tout total) (Num 100)) else Num 0)"
    by (simp add: r_def total_def calculateTotals_def Let_def ti to floor_rat_one_numeral
        roundToDouble_def)
  have c: "tin = Num (31 / 2) \<and> tout = Num 2 \<longrightarrow> overtimeRatio r = roundToDouble (57 / 5)"
  proof (intro impI)
    assume "tin = Num (31 / 2) \<and> tout = Num 2"
    then have t: "tin = Num (31 / 2)" "tout = Num 2" by blast+
    show "overtimeRatio r = roundToDouble (57 / 5)"
      unfolding b total_def t using numPositive_example1 overtimeRatio_example1
      by (simp only: if_True)
  qed
  have d: "tin = Num 3 \<and> tout = Num 1 \<longrightarrow> overtimeRatio r = Num 25"
  proof (intro impI)
    assume "tin = Num 3 \<and> tout = Num 1"
    then have t: "tin = Num 3" "tout = Num 1" by blast+
    show "overtimeRatio r = Num 25"
      unfolding b total_def t using numPositive_example2 overtimeRatio_example2
      by (simp only: if_True)
  qed
  have e: "calculateTotals [] =
       \<lparr> totalInHours = Num 0, totalOutHours = Num 0, totalHours = Num 0,
         overtimeRatio = Num 0 \<rparr>"
    by (simp add: fv)
  show ?thesis
    unfolding Let_def tin_def [symmetric] tout_def [symmetric] total_def [symmetric]
      r_def [symmetric]
    using a b c d e by blast
qed

theorem calculateTotals_binary64_witness:
  "foldl numAdd (Num 0) (map inHours [mkItem [] 8 (3 / 2), mkItem [] (15 / 2) (1 / 2)])
     = Num (31 / 2)
   \<and> foldl numAdd (Num 0) (map outHours [mkItem [] 8 (3 / 2), mkItem [] (15 / 2) (1 / 2)])
     = Num 2
   \<and> overtimeRatio (calculateTotals [mkItem [] 8 (3 / 2), mkItem [] (15 / 2) (1 / 2)])
     = roundToDouble (57 / 5)
   \<and> foldl numAdd (Num 0) (map inHours [mkItem [] 3 1]) = Num 3
   \<and> foldl numAdd (Num 0) (map outHours [mkItem [] 3 1]) = Num 1
   \<and> overtimeRatio (calculateTotals [mkItem [] 3 1]) = Num 25"
proof -
  have i1: "foldl numAdd (Num 0) (map inHours [mkItem [] 8 (3 / 2), mkItem [] (15 / 2) (1 / 2)])
     = Num (31 / 2)"
    by (simp add: fv)
  have o1: "foldl numAdd (Num 0) (map outHours [mkItem [] 8 (3 / 2), mkItem [] (15 / 2) (1 / 2)])
     = Num 2"
    by (simp add: fv)
  have i2: "foldl numAdd (Num 0) (map inHours [mkItem [] 3 1]) = Num 3"
    by (simp add: fv)
  have o2: "foldl numAdd (Num 0) (map outHours [mkItem [] 3 1]) = Num 1"
    by (simp add: fv)
  from calculateTotals_binary64 [of "[mkItem [] 8 (3 / 2), mkItem [] (15 / 2) (1 / 2)]"]
  have r1: "overtimeRatio (calculateTotals [mkItem [] 8 (3 / 2), mkItem [] (15 / 2) (1 / 2)])
     = roundToDouble (57 / 5)"
    unfolding Let_def i1 o1 by blast
  from calculateTotals_binary64 [of "[mkItem [] 3 1]"]
  have r2: "overtimeRatio (calculateTotals [mkItem [] 3 1]) = Num 25"
    unfolding Let_def i2 o2 by blast
  from i1 o1 r1 i2 o2 r2 show ?thesis by blast
qed

end
